theory Spec2Isabelle
  imports Main "HOL-Library.Sublist" "HOL-Library.AList"
begin

section \<open>Python values, exceptions and dictionaries\<close>

text \<open>
  The program is \<^verbatim>\<open>src/app.py\<close>: a Gradio front end that searches the Hugging Face
  hub (\<^verbatim>\<open>search_hub\<close>), renders each hit as an HTML fragment (\<^verbatim>\<open>format_link\<close>),
  looks up the metadata of a selected row (\<^verbatim>\<open>load_metadata\<close>) and aggregates the
  hits (\<^verbatim>\<open>SwarmyTime\<close>).

  The values that travel through the dictionaries of the program are the field values of
  the hub's result objects and what the program derives from them: \<^verbatim>\<open>None\<close>, integers
  and strings. Python's integers are unbounded, hence \<open>int\<close>. Floating-point values
  (which pandas introduces for a column that mixes integers and \<^verbatim>\<open>None\<close>) are not
  among them; where the program would meet one, the model says so and stops.
\<close>

datatype pyval = PNone | PInt int | PStr string

text \<open>
  The exceptions the program can raise. \<open>AttributeError\<close> and \<open>KeyError\<close> carry the
  name that was looked up; \<open>HubError\<close> stands for whatever the hub client raises, with
  its message.
\<close>

datatype exn =
    AttributeError string
  | KeyError string
  | TypeError
  | IndexError
  | HubError string

text \<open>A dictionary with string keys, as every \<^verbatim>\<open>dict\<close> of the program is.\<close>

type_synonym pydict = "string \<rightharpoonup> pyval"

text \<open>Sequencing of computations that may raise: the first exception wins.\<close>

definition and_then :: "exn + 'a \<Rightarrow> ('a \<Rightarrow> exn + 'b) \<Rightarrow> exn + 'b" where
  "and_then m f = (case m of Inl e \<Rightarrow> Inl e | Inr x \<Rightarrow> f x)"

text \<open>\<^verbatim>\<open>d.get(k, default)\<close> and \<^verbatim>\<open>d[k]\<close>.\<close>

definition dict_get :: "pydict \<Rightarrow> string \<Rightarrow> pyval \<Rightarrow> pyval" where
  "dict_get d k dflt = (case d k of None \<Rightarrow> dflt | Some v \<Rightarrow> v)"

definition getitem :: "pydict \<Rightarrow> string \<Rightarrow> exn + pyval" where
  "getitem d k = (case d k of None \<Rightarrow> Inl (KeyError k) | Some v \<Rightarrow> Inr v)"

text \<open>
  \<^verbatim>\<open>n + v\<close> for an integer \<open>n\<close>: defined on integers, a \<^verbatim>\<open>TypeError\<close> on
  \<^verbatim>\<open>None\<close> and on strings.
\<close>

definition py_add :: "int \<Rightarrow> pyval \<Rightarrow> exn + int" where
  "py_add n v = (case v of PInt k \<Rightarrow> Inr (n + k) | _ \<Rightarrow> Inl TypeError)"

text \<open>
  \<^verbatim>\<open>s in v\<close> for a string \<open>s\<close>: the substring test when \<open>v\<close> is a string, a
  \<^verbatim>\<open>TypeError\<close> when \<open>v\<close> is \<^verbatim>\<open>None\<close> or an integer (neither is iterable).
\<close>

definition py_in :: "string \<Rightarrow> pyval \<Rightarrow> exn + bool" where
  "py_in s v = (case v of PStr t \<Rightarrow> Inr (sublist s t) | _ \<Rightarrow> Inl TypeError)"


section \<open>The aggregator \<^verbatim>\<open>SwarmyTime\<close>\<close>

text \<open>
  The dictionary \<^verbatim>\<open>aggregated\<close> has four fixed keys. Under \<^verbatim>\<open>"unique_authors"\<close>
  it holds a set during the loop and the set's size afterwards, so the record is
  polymorphic in that field. \<^verbatim>\<open>"item_types"\<close> is itself a dictionary; since its
  values are summed below, it is kept as an association list in insertion order.
\<close>

record 'a aggregated =
  total_items :: int
  unique_authors :: 'a
  total_downloads :: int
  item_types :: "(string \<times> int) list"

text \<open>\<^verbatim>\<open>aggregated["item_types"][k] += 1\<close>\<close>

definition incr_item_type :: "string \<Rightarrow> 'a aggregated \<Rightarrow> exn + 'a aggregated" where
  "incr_item_type k a =
     (case map_of (item_types a) k of
        None \<Rightarrow> Inl (KeyError k)
      | Some n \<Rightarrow> Inr (a\<lparr>item_types := AList.update k (n + 1) (item_types a)\<rparr>))"

text \<open>The body of the loop, lines 95 to 103, for one \<open>item\<close>.\<close>

definition SwarmyTime_body :: "pyval set aggregated \<Rightarrow> pydict \<Rightarrow> exn + pyval set aggregated" where
  "SwarmyTime_body a item =
     (let a1 = a\<lparr>unique_authors :=
                  insert (dict_get item ''author'' (PStr ''Unknown'')) (unique_authors a)\<rparr>
      in and_then (py_add (total_downloads a1) (dict_get item ''downloads'' (PInt 0)))
           (\<lambda>td. let a2 = a1\<lparr>total_downloads := td\<rparr>
                  in if item ''modelId'' \<noteq> None then incr_item_type ''Models'' a2
                     else and_then (py_in ''dataset'' (dict_get item ''id'' (PStr '''')))
                            (\<lambda>b. if b then incr_item_type ''Datasets'' a2
                                  else incr_item_type ''Spaces'' a2)))"

fun SwarmyTime_loop :: "pyval set aggregated \<Rightarrow> pydict list \<Rightarrow> exn + pyval set aggregated" where
  "SwarmyTime_loop a [] = Inr a"
| "SwarmyTime_loop a (item # data) = and_then (SwarmyTime_body a item) (\<lambda>a'. SwarmyTime_loop a' data)"

definition SwarmyTime :: "pydict list \<Rightarrow> exn + int aggregated" where
  "SwarmyTime data =
     and_then
       (SwarmyTime_loop
          \<lparr>total_items = int (length data), unique_authors = {}, total_downloads = 0,
           item_types = [(''Models'', 0), (''Datasets'', 0), (''Spaces'', 0)]\<rparr>
          data)
       (\<lambda>a. Inr \<lparr>total_items = total_items a,
                 unique_authors = int (card (unique_authors a)),
                 total_downloads = total_downloads a,
                 item_types = item_types a\<rparr>)"


section \<open>Searching the hub: \<^verbatim>\<open>search_hub\<close> and \<^verbatim>\<open>format_link\<close>\<close>

text \<open>
  \<^verbatim>\<open>str(v)\<close>, which is also what an f-string puts in place of \<^verbatim>\<open>{v}\<close>: a string
  stands for itself, \<^verbatim>\<open>None\<close> gives \<^verbatim>\<open>"None"\<close>, an integer its decimal digits.
\<close>

definition digit_char :: "nat \<Rightarrow> char" where
  "digit_char n = ''0123456789'' ! (n mod 10)"

function str_of_nat :: "nat \<Rightarrow> string" where
  "str_of_nat n = (if n < 10 then [digit_char n] else str_of_nat (n div 10) @ [digit_char n])"
  by pat_completeness auto
termination
  by (relation "measure id") auto

declare str_of_nat.simps [simp del]

definition str_of_int :: "int \<Rightarrow> string" where
  "str_of_int i = (if i < 0 then CHR ''-'' # str_of_nat (nat (- i)) else str_of_nat (nat i))"

fun py_str :: "pyval \<Rightarrow> string" where
  "py_str PNone = ''None''"
| "py_str (PInt i) = str_of_int i"
| "py_str (PStr s) = s"

text \<open>
  The hub client is outside the repository. A result object of the client is modelled by
  its attributes; reading an attribute the object does not have raises
  \<^verbatim>\<open>AttributeError\<close>. An attribute that is there may hold \<^verbatim>\<open>None\<close>.
\<close>

type_synonym hubobj = "string \<rightharpoonup> pyval"

definition getattr :: "hubobj \<Rightarrow> string \<Rightarrow> exn + pyval" where
  "getattr obj a = (case obj a of None \<Rightarrow> Inl (AttributeError a) | Some v \<Rightarrow> Inr v)"

text \<open>
  The client \<^verbatim>\<open>HfApi()\<close> is a parameter of the model: each listing returns the
  sequence of its hits or raises; \<^verbatim>\<open>dataset_info\<close> and \<^verbatim>\<open>space_info\<close> stand for the
  call followed by \<^verbatim>\<open>str\<close>.
\<close>

record HfApi =
  list_models :: "string \<Rightarrow> exn + hubobj list"
  list_datasets :: "string \<Rightarrow> exn + hubobj list"
  list_spaces :: "string \<Rightarrow> exn + hubobj list"
  dataset_info :: "pyval \<Rightarrow> exn + string"
  space_info :: "pyval \<Rightarrow> exn + string"

text \<open>
  A list comprehension \<^verbatim>\<open>[f(x) for x in xs]\<close> whose element expression may raise:
  the elements are built in order and the first exception leaves no list at all.
\<close>

fun comprehension :: "('a \<Rightarrow> exn + 'b) \<Rightarrow> 'a list \<Rightarrow> exn + 'b list" where
  "comprehension f [] = Inr []"
| "comprehension f (x # xs) =
     and_then (f x) (\<lambda>y. and_then (comprehension f xs) (\<lambda>ys. Inr (y # ys)))"

text \<open>
  The dictionaries built at lines 11, 14 and 17. The entries of a dictionary display are
  evaluated from left to right; the link reads the identifier a second time.
\<close>

definition model_row :: "hubobj \<Rightarrow> exn + pydict" where
  "model_row model =
     and_then (getattr model ''modelId'') (\<lambda>ident.
     and_then (getattr model ''author'') (\<lambda>author.
     and_then (getattr model ''downloads'') (\<lambda>downloads.
     and_then (getattr model ''modelId'') (\<lambda>ident'.
       Inr [''id'' \<mapsto> ident, ''author'' \<mapsto> author, ''downloads'' \<mapsto> downloads,
            ''link'' \<mapsto> PStr (''https://huggingface.co/'' @ py_str ident')]))))"

definition dataset_row :: "hubobj \<Rightarrow> exn + pydict" where
  "dataset_row dataset =
     and_then (getattr dataset ''id'') (\<lambda>ident.
     and_then (getattr dataset ''author'') (\<lambda>author.
     and_then (getattr dataset ''downloads'') (\<lambda>downloads.
     and_then (getattr dataset ''id'') (\<lambda>ident'.
       Inr [''id'' \<mapsto> ident, ''author'' \<mapsto> author, ''downloads'' \<mapsto> downloads,
            ''link'' \<mapsto> PStr (''https://huggingface.co/datasets/'' @ py_str ident')]))))"

definition space_row :: "hubobj \<Rightarrow> exn + pydict" where
  "space_row space =
     and_then (getattr space ''id'') (\<lambda>ident.
     and_then (getattr space ''author'') (\<lambda>author.
     and_then (getattr space ''id'') (\<lambda>ident'.
       Inr [''id'' \<mapsto> ident, ''author'' \<mapsto> author,
            ''link'' \<mapsto> PStr (''https://huggingface.co/spaces/'' @ py_str ident')])))"

text \<open>
  \<^verbatim>\<open>format_link\<close>, lines 28 to 45. \<^verbatim>\<open>search_type[:-1]\<close> drops the last character
  (and leaves the empty string empty). The HTML is the f-string of lines 37 to 44,
  character by character.
\<close>

definition format_link :: "pydict \<Rightarrow> int \<Rightarrow> string \<Rightarrow> exn + string" where
  \<open>format_link item number search_type =
     and_then (getitem item ''link'') (\<lambda>link.
       let readme_link = py_str link @ ''/blob/main/README.md'' in
       and_then (getitem item ''id'') (\<lambda>ident.
         let title = str_of_int number @ ''. '' @ py_str ident in
         and_then (getitem item ''author'') (\<lambda>author.
           let metadata = ''Author: '' @ py_str author in
           and_then
             (if item ''downloads'' \<noteq> None
              then and_then (getitem item ''downloads'')
                     (\<lambda>downloads. Inr (metadata @ '', Downloads: '' @ py_str downloads))
              else Inr metadata)
             (\<lambda>metadata.
                Inr (''\<newline>    <div style="margin-bottom: 10px;">\<newline>''
                   @ ''        <strong>'' @ title @ ''</strong><br>\<newline>''
                   @ ''        <a href="'' @ py_str link
                   @ ''" target="_blank" style="color: #4a90e2; text-decoration: none;">View ''
                   @ butlast search_type @ ''</a> | \<newline>''
                   @ ''        <a href="'' @ readme_link
                   @ ''" target="_blank" style="color: #4a90e2; text-decoration: none;">View README</a><br>\<newline>''
                   @ ''        <small>'' @ metadata @ ''</small>\<newline>''
                   @ ''    </div>\<newline>''
                   @ ''    '')))))\<close>

text \<open>
  The loop of lines 22 to 24: \<^verbatim>\<open>enumerate(data, 1)\<close> hands out the numbers
  \<open>i, i + 1, \<dots>\<close> in the order of \<open>data\<close>; each item receives its number and then
  its formatted link.
\<close>

fun number_rows :: "string \<Rightarrow> int \<Rightarrow> pydict list \<Rightarrow> exn + pydict list" where
  "number_rows search_type i [] = Inr []"
| "number_rows search_type i (item # data) =
     (let item1 = item(''number'' \<mapsto> PInt i) in
      and_then (format_link item1 i search_type) (\<lambda>html.
        let item2 = item1(''formatted_link'' \<mapsto> PStr html) in
        and_then (number_rows search_type (i + 1) data) (\<lambda>rest. Inr (item2 # rest))))"

text \<open>
  \<^verbatim>\<open>search_hub\<close>. The data frame \<^verbatim>\<open>pd.DataFrame(data)\<close> is modelled by the list of
  its rows, the dictionaries of \<open>data\<close>; within one call all rows have the same
  columns.
\<close>

definition search_hub :: "HfApi \<Rightarrow> string \<Rightarrow> string \<Rightarrow> exn + pydict list" where
  "search_hub api query search_type =
     and_then
       (if search_type = ''Models''
        then and_then (list_models api query) (comprehension model_row)
        else if search_type = ''Datasets''
        then and_then (list_datasets api query) (comprehension dataset_row)
        else if search_type = ''Spaces''
        then and_then (list_spaces api query) (comprehension space_row)
        else Inr [])
       (number_rows search_type 1)"


section \<open>The row-selection callback \<^verbatim>\<open>load_metadata\<close>\<close>

text \<open>
  Positional indexing as Python lists and \<^verbatim>\<open>df.iloc\<close> do it, for a sequence of
  length \<open>n\<close>: the positions \<open>0, \<dots>, n - 1\<close> read from the front, the positions
  \<open>-n, \<dots>, -1\<close> from the end, and every other position raises \<^verbatim>\<open>IndexError\<close>.
\<close>

definition py_index :: "'a list \<Rightarrow> int \<Rightarrow> exn + 'a" where
  "py_index xs i =
     (if 0 \<le> i \<and> i < int (length xs) then Inr (xs ! nat i)
      else if i < 0 \<and> - int (length xs) \<le> i then Inr (xs ! nat (int (length xs) + i))
      else Inl IndexError)"

text \<open>
  A data frame is modelled by the list of its rows, each row a dictionary from column name
  to value; the rows of one frame have the same columns, so a frame has no column exactly
  when its rows have no key. \<^verbatim>\<open>len(df)\<close> is the number of rows, and \<^verbatim>\<open>df.empty\<close>
  holds when the frame has no row or no column.
\<close>

definition df_empty :: "pydict list \<Rightarrow> bool" where
  "df_empty rows = (rows = [] \<or> list_all (\<lambda>row. row = Map.empty) rows)"

text \<open>The selection event; \<^verbatim>\<open>evt.index\<close> is the sequence (row, column).\<close>

record SelectData =
  index :: "int list"

text \<open>
  \<^verbatim>\<open>load_metadata\<close>, lines 57 to 78. The data frame may be \<^verbatim>\<open>None\<close>.
  \<^verbatim>\<open>ModelCard.load\<close> followed by \<^verbatim>\<open>str\<close> is the parameter \<open>load_card\<close>, which
  returns the card's text or the message of the exception it raised. The conjunction of
  line 58 is evaluated from left to right and stops at the first false conjunct, so
  \<^verbatim>\<open>evt.index[0]\<close> is only evaluated for a frame that is there and not empty.

  Besides its result the model returns the positions at which it read a row of the frame
  (\<^verbatim>\<open>df.iloc[...]\<close>, line 59), so that a statement about when the frame is read can be
  made.
\<close>

definition load_metadata ::
  "(pyval \<Rightarrow> string + string) \<Rightarrow> HfApi \<Rightarrow> SelectData \<Rightarrow> pydict list option \<Rightarrow> string
     \<Rightarrow> int list \<times> (exn + string)" where
  "load_metadata load_card api evt df search_type =
     (case df of
        None \<Rightarrow> ([], Inr '''')
      | Some rows \<Rightarrow>
          if df_empty rows then ([], Inr '''')
          else (case py_index (index evt) 0 of
                  Inl e \<Rightarrow> ([], Inl e)
                | Inr i \<Rightarrow>
                    if i < int (length rows)
                    then ([i],
                          and_then (py_index rows i) (\<lambda>row.
                          and_then (getitem row ''id'') (\<lambda>item_id.
                            if search_type = ''Models''
                            then (case load_card item_id of
                                    Inr card_text \<Rightarrow> Inr card_text
                                  | Inl e \<Rightarrow> Inr (''Error loading model card: '' @ e))
                            else if search_type = ''Datasets'' then dataset_info api item_id
                            else if search_type = ''Spaces'' then space_info api item_id
                            else Inr '''')))
                    else ([], Inr '''')))"


section \<open>The search callback: \<^verbatim>\<open>display_results\<close> and \<^verbatim>\<open>search_and_aggregate\<close>\<close>

text \<open>
  \<^verbatim>\<open>display_results\<close>, lines 47 to 55. The loop appends the formatted link of each
  row in order; \<^verbatim>\<open>html += v\<close> needs \<open>v\<close> to be a string.
\<close>

fun append_links :: "string \<Rightarrow> pydict list \<Rightarrow> exn + string" where
  "append_links html [] = Inr html"
| "append_links html (row # rows) =
     and_then (getitem row ''formatted_link'')
       (\<lambda>v. case v of PStr s \<Rightarrow> append_links (html @ s) rows | _ \<Rightarrow> Inl TypeError)"

definition display_results :: "pydict list option \<Rightarrow> exn + string" where
  \<open>display_results df =
     (case df of
        None \<Rightarrow> Inr ''<p>No results found.</p>''
      | Some rows \<Rightarrow>
          if \<not> df_empty rows
          then and_then (append_links ''<div style='max-height: 400px; overflow-y: auto;'>'' rows)
                 (\<lambda>html. Inr (html @ ''</div>''))
          else Inr ''<p>No results found.</p>'')\<close>

text \<open>
  The records of a frame, \<^verbatim>\<open>df.to_dict('records')\<close>, for a frame that
  \<^verbatim>\<open>pd.DataFrame\<close> built from a list of dictionaries whose keys are among those
  \<^verbatim>\<open>search_hub\<close> writes. pandas hands the dictionaries back as they were given, except
  that it fills a cell whose key is missing from the row, and turns a column that holds
  both \<^verbatim>\<open>None\<close> and integers into floating-point numbers with \<^verbatim>\<open>nan\<close> for
  \<^verbatim>\<open>None\<close>. Floating-point values are outside this model: for such a frame the
  model gives no records (\<open>None\<close>) and says nothing about what the program does with
  them.
\<close>

definition search_hub_columns :: "string list" where
  "search_hub_columns = [''id'', ''author'', ''downloads'', ''link'', ''number'', ''formatted_link'']"

definition float_column :: "pydict list \<Rightarrow> string \<Rightarrow> bool" where
  "float_column rows k =
     (list_ex (\<lambda>row. row k = Some PNone) rows \<and>
      list_ex (\<lambda>row. case row k of Some (PInt n) \<Rightarrow> True | _ \<Rightarrow> False) rows)"

definition to_dict_records :: "pydict list \<Rightarrow> pydict list option" where
  "to_dict_records rows =
     (if list_all
           (\<lambda>k. (list_all (\<lambda>row. row k \<noteq> None) rows \<or> list_all (\<lambda>row. row k = None) rows) \<and>
                \<not> float_column rows k)
           search_hub_columns
      then Some rows
      else None)"

text \<open>
  \<^verbatim>\<open>search_and_aggregate\<close>, lines 119 to 123, the callback of the search button. Its
  result is \<open>None\<close> where the records of the frame are outside the model, and otherwise
  what the program returns or raises.
\<close>

definition search_and_aggregate ::
  "HfApi \<Rightarrow> string \<Rightarrow> string \<Rightarrow> (exn + string \<times> int aggregated) option" where
  "search_and_aggregate api query search_type =
     (case search_hub api query search_type of
        Inl e \<Rightarrow> Some (Inl e)
      | Inr df \<Rightarrow>
          (case to_dict_records df of
             None \<Rightarrow> None
           | Some records \<Rightarrow>
               Some (and_then (SwarmyTime records) (\<lambda>aggregated.
                     and_then (display_results (Some df)) (\<lambda>html_results.
                       Inr (html_results, aggregated))))))"


section \<open>Notions used to state the properties\<close>

text \<open>
  A record's downloads count for the sum: the integer under \<^verbatim>\<open>"downloads"\<close>, and 0
  when the record has no such field.
\<close>

definition downloads_or_0 :: "pydict \<Rightarrow> int" where
  "downloads_or_0 item = (case item ''downloads'' of Some (PInt n) \<Rightarrow> n | _ \<Rightarrow> 0)"

text \<open>A record's author, with the sentinel for a record that has no author field.\<close>

definition author_or_Unknown :: "pydict \<Rightarrow> pyval" where
  "author_or_Unknown item = (case item ''author'' of None \<Rightarrow> PStr ''Unknown'' | Some v \<Rightarrow> v)"

text \<open>
  Records whose fields have the types of the data model: the downloads count, when
  there is one, is an integer; the identifier, when the aggregator looks at it, is a
  string (it looks at it for a record without the key \<^verbatim>\<open>"modelId"\<close>).
\<close>

definition downloads_ok :: "pydict \<Rightarrow> bool" where
  "downloads_ok item =
     (case item ''downloads'' of None \<Rightarrow> True | Some (PInt n) \<Rightarrow> True | Some _ \<Rightarrow> False)"

definition id_ok :: "pydict \<Rightarrow> bool" where
  "id_ok item =
     (item ''modelId'' \<noteq> None \<or>
      (case item ''id'' of None \<Rightarrow> True | Some (PStr s) \<Rightarrow> True | Some _ \<Rightarrow> False))"

text \<open>
  The bucket that the tests of lines 98 to 103 choose for a record whose identifier, where
  they look at it, is a string.
\<close>

definition bucket_of :: "pydict \<Rightarrow> string" where
  "bucket_of item =
     (if item ''modelId'' \<noteq> None then ''Models''
      else case item ''id'' of
             Some (PStr s) \<Rightarrow> if sublist ''dataset'' s then ''Datasets'' else ''Spaces''
           | _ \<Rightarrow> ''Spaces'')"

text \<open>
  A record that carries a kind tag, under the key \<^verbatim>\<open>"kind"\<close>, which names none of the
  three kinds, neither as the data model spells them nor as the report does.
\<close>

definition unknown_kind :: "pydict \<Rightarrow> bool" where
  "unknown_kind item =
     (case item ''kind'' of
        None \<Rightarrow> False
      | Some v \<Rightarrow> v \<notin> set (map PStr [''Model'', ''Dataset'', ''Space'',
                                       ''Models'', ''Datasets'', ''Spaces'']))"

text \<open>
  The batch of catalog items that \<^verbatim>\<open>search_hub\<close> normalises for a search type, the
  attribute that holds an item's identifier, and the attributes \<^verbatim>\<open>search_hub\<close> reads.
\<close>

definition catalog_items :: "HfApi \<Rightarrow> string \<Rightarrow> string \<Rightarrow> exn + hubobj list" where
  "catalog_items api query search_type =
     (if search_type = ''Models'' then list_models api query
      else if search_type = ''Datasets'' then list_datasets api query
      else if search_type = ''Spaces'' then list_spaces api query
      else Inr [])"

definition id_attr :: "string \<Rightarrow> string" where
  "id_attr search_type = (if search_type = ''Models'' then ''modelId'' else ''id'')"

definition has_fields :: "string \<Rightarrow> hubobj \<Rightarrow> bool" where
  "has_fields search_type x =
     (x (id_attr search_type) \<noteq> None \<and> x ''author'' \<noteq> None \<and>
      (search_type = ''Spaces'' \<or> x ''downloads'' \<noteq> None))"

text \<open>
  A client for the examples: its listings return fixed sequences whatever the query, and
  it knows no metadata.
\<close>

definition fixed_api :: "hubobj list \<Rightarrow> hubobj list \<Rightarrow> hubobj list \<Rightarrow> HfApi" where
  "fixed_api ms ds ss =
     \<lparr>list_models = (\<lambda>q. Inr ms), list_datasets = (\<lambda>q. Inr ds), list_spaces = (\<lambda>q. Inr ss),
      dataset_info = (\<lambda>i. Inl (HubError ''not found'')),
      space_info = (\<lambda>i. Inl (HubError ''not found''))\<rparr>"

text \<open>The element expression of the comprehension that \<^verbatim>\<open>search_hub\<close> runs for a search type.\<close>

definition row_of :: "string \<Rightarrow> hubobj \<Rightarrow> exn + pydict" where
  "row_of search_type =
     (if search_type = ''Models'' then model_row
      else if search_type = ''Datasets'' then dataset_row
      else space_row)"

text \<open>
  The link derivation rule in the words of the specification, for a hub domain, a kind
  and an identifier, and the kind that a search type stands for.
\<close>

datatype kind = Model | Dataset | Space

fun primary_link :: "string \<Rightarrow> kind \<Rightarrow> string \<Rightarrow> string" where
  "primary_link domain Model ident = ''https://'' @ domain @ ''/'' @ ident"
| "primary_link domain Dataset ident = ''https://'' @ domain @ ''/datasets/'' @ ident"
| "primary_link domain Space ident = ''https://'' @ domain @ ''/spaces/'' @ ident"

definition readme_link :: "string \<Rightarrow> string" where
  "readme_link link = link @ ''/blob/main/README.md''"

definition kind_of :: "string \<Rightarrow> kind option" where
  "kind_of search_type =
     (if search_type = ''Models'' then Some Model
      else if search_type = ''Datasets'' then Some Dataset
      else if search_type = ''Spaces'' then Some Space
      else None)"

text \<open>The shape of \<^verbatim>\<open>item_types\<close> throughout: the three keys in their order.\<close>

definition buckets :: "int \<Rightarrow> int \<Rightarrow> int \<Rightarrow> (string \<times> int) list" where
  "buckets m d s = [(''Models'', m), (''Datasets'', d), (''Spaces'', s)]"


section \<open>Basic facts\<close>

lemma and_then_Inl [simp]: "and_then (Inl e) f = Inl e"
  by (simp add: and_then_def)

lemma and_then_Inr [simp]: "and_then (Inr x) f = f x"
  by (simp add: and_then_def)

lemma and_then_eq_Inr: "and_then m f = Inr y \<longleftrightarrow> (\<exists>x. m = Inr x \<and> f x = Inr y)"
  by (cases m) simp_all

text \<open>
  The loop invariant of \<^verbatim>\<open>SwarmyTime\<close>: the three buckets stay in place and each
  iteration adds one to exactly one of them.
\<close>

lemma incr_item_type_buckets:
  assumes "item_types a = buckets m d s"
  shows "incr_item_type ''Models'' a = Inr (a\<lparr>item_types := buckets (m + 1) d s\<rparr>)"
    and "incr_item_type ''Datasets'' a = Inr (a\<lparr>item_types := buckets m (d + 1) s\<rparr>)"
    and "incr_item_type ''Spaces'' a = Inr (a\<lparr>item_types := buckets m d (s + 1)\<rparr>)"
  using assms by (simp_all add: incr_item_type_def buckets_def)

lemma SwarmyTime_body_cases:
  assumes "SwarmyTime_body a item = Inr a'"
  obtains k a2 where "item_types a2 = item_types a" and "total_items a2 = total_items a"
    and "incr_item_type k a2 = Inr a'"
    and "k = ''Models'' \<or> k = ''Datasets'' \<or> k = ''Spaces''"
proof -
  from assms obtain td where
    td: "py_add (total_downloads a) (dict_get item ''downloads'' (PInt 0)) = Inr td"
    by (cases "py_add (total_downloads a) (dict_get item ''downloads'' (PInt 0))")
       (simp_all add: SwarmyTime_body_def Let_def)
  define a2 where "a2 = a\<lparr>unique_authors :=
      insert (dict_get item ''author'' (PStr ''Unknown'')) (unique_authors a), total_downloads := td\<rparr>"
  have eq: "SwarmyTime_body a item =
      (if item ''modelId'' \<noteq> None then incr_item_type ''Models'' a2
       else and_then (py_in ''dataset'' (dict_get item ''id'' (PStr '''')))
              (\<lambda>b. if b then incr_item_type ''Datasets'' a2 else incr_item_type ''Spaces'' a2))"
    unfolding a2_def SwarmyTime_body_def Let_def using td by simp
  have a2: "item_types a2 = item_types a" "total_items a2 = total_items a"
    by (simp_all add: a2_def)
  show thesis
  proof (cases "item ''modelId'' \<noteq> None")
    case True
    with eq assms have "incr_item_type ''Models'' a2 = Inr a'" by simp
    with a2 that show thesis by blast
  next
    case False
    with eq have "SwarmyTime_body a item = and_then (py_in ''dataset'' (dict_get item ''id'' (PStr [])))
        (\<lambda>b. if b then incr_item_type ''Datasets'' a2 else incr_item_type ''Spaces'' a2)"
      by simp
    with assms have "and_then (py_in ''dataset'' (dict_get item ''id'' (PStr [])))
        (\<lambda>b. if b then incr_item_type ''Datasets'' a2 else incr_item_type ''Spaces'' a2) = Inr a'"
      by metis
    then obtain b where
      "(if b then incr_item_type ''Datasets'' a2 else incr_item_type ''Spaces'' a2) = Inr a'"
      unfolding and_then_eq_Inr by blast
    with a2 that show thesis by (cases b) auto
  qed
qed

lemma SwarmyTime_body_buckets:
  assumes "SwarmyTime_body a item = Inr a'" and "item_types a = buckets m d s"
  shows "\<exists>m' d' s'. item_types a' = buckets m' d' s' \<and> m' + d' + s' = m + d + s + 1"
proof -
  from assms(1) obtain k a2 where
    a2: "item_types a2 = item_types a" and a': "incr_item_type k a2 = Inr a'"
    and k: "k = ''Models'' \<or> k = ''Datasets'' \<or> k = ''Spaces''"
    by (rule SwarmyTime_body_cases)
  from a2 assms(2) have it: "item_types a2 = buckets m d s"
    by simp
  from k show ?thesis
  proof (elim disjE)
    assume "k = ''Models''"
    with a' incr_item_type_buckets(1) [OF it] have "item_types a' = buckets (m + 1) d s"
      by auto
    then show ?thesis by (intro exI [of _ "m + 1"] exI [of _ d] exI [of _ s]) simp
  next
    assume "k = ''Datasets''"
    with a' incr_item_type_buckets(2) [OF it] have "item_types a' = buckets m (d + 1) s"
      by auto
    then show ?thesis by (intro exI [of _ m] exI [of _ "d + 1"] exI [of _ s]) simp
  next
    assume "k = ''Spaces''"
    with a' incr_item_type_buckets(3) [OF it] have "item_types a' = buckets m d (s + 1)"
      by auto
    then show ?thesis by (intro exI [of _ m] exI [of _ d] exI [of _ "s + 1"]) simp
  qed
qed

lemma SwarmyTime_body_total_items:
  "SwarmyTime_body a item = Inr a' \<Longrightarrow> total_items a' = total_items a"
  by (auto simp: SwarmyTime_body_def Let_def and_then_eq_Inr incr_item_type_def
      split: if_splits option.splits)

lemma SwarmyTime_loop_buckets:
  assumes "SwarmyTime_loop a data = Inr a'" and "item_types a = buckets m d s"
  shows "\<exists>m' d' s'. item_types a' = buckets m' d' s' \<and>
            m' + d' + s' = m + d + s + int (length data)"
  using assms
proof (induction data arbitrary: a m d s)
  case Nil
  then show ?case by auto
next
  case (Cons item data)
  from Cons.prems(1) obtain a1 where
    step: "SwarmyTime_body a item = Inr a1" and rest: "SwarmyTime_loop a1 data = Inr a'"
    by (auto simp: and_then_eq_Inr)
  from SwarmyTime_body_buckets [OF step Cons.prems(2)] obtain m1 d1 s1 where
    b1: "item_types a1 = buckets m1 d1 s1" and sum1: "m1 + d1 + s1 = m + d + s + 1"
    by blast
  from Cons.IH [OF rest b1] obtain m' d' s' where
    b': "item_types a' = buckets m' d' s'"
    and sum': "m' + d' + s' = m1 + d1 + s1 + int (length data)"
    by blast
  from sum1 sum' have "m' + d' + s' = m + d + s + int (length (item # data))"
    by simp
  with b' show ?case by blast
qed

lemma SwarmyTime_loop_total_items:
  "SwarmyTime_loop a data = Inr a' \<Longrightarrow> total_items a' = total_items a"
  by (induction data arbitrary: a)
     (auto simp: and_then_eq_Inr dest: SwarmyTime_body_total_items)


lemma incr_item_type_fields:
  assumes "incr_item_type k a = Inr a'"
  shows "unique_authors a' = unique_authors a" and "total_downloads a' = total_downloads a"
    and "total_items a' = total_items a"
  using assms by (auto simp: incr_item_type_def split: option.splits)

lemma SwarmyTime_body_fields:
  assumes "SwarmyTime_body a item = Inr a'"
  shows "unique_authors a' = insert (dict_get item ''author'' (PStr ''Unknown'')) (unique_authors a)"
    and "py_add (total_downloads a) (dict_get item ''downloads'' (PInt 0)) = Inr (total_downloads a')"
proof -
  from assms obtain td where
    td: "py_add (total_downloads a) (dict_get item ''downloads'' (PInt 0)) = Inr td"
    by (cases "py_add (total_downloads a) (dict_get item ''downloads'' (PInt 0))")
       (simp_all add: SwarmyTime_body_def Let_def)
  let ?a2 = "a\<lparr>unique_authors :=
      insert (dict_get item ''author'' (PStr ''Unknown'')) (unique_authors a), total_downloads := td\<rparr>"
  have "\<exists>k. incr_item_type k ?a2 = Inr a'"
    using assms td
    by (cases "py_in ''dataset'' (dict_get item ''id'' (PStr []))")
       (auto simp: SwarmyTime_body_def Let_def split: if_splits)
  then obtain k where k: "incr_item_type k ?a2 = Inr a'" ..
  from incr_item_type_fields(1) [OF k]
  show "unique_authors a' = insert (dict_get item ''author'' (PStr ''Unknown'')) (unique_authors a)"
    by simp
  from incr_item_type_fields(2) [OF k] td
  show "py_add (total_downloads a) (dict_get item ''downloads'' (PInt 0)) = Inr (total_downloads a')"
    by simp
qed

lemma py_add_downloads:
  "py_add n (dict_get item ''downloads'' (PInt 0)) = Inr n' \<Longrightarrow> n' = n + downloads_or_0 item"
  by (auto simp: py_add_def dict_get_def downloads_or_0_def split: option.splits pyval.splits)

lemma dict_get_author: "dict_get item ''author'' (PStr ''Unknown'') = author_or_Unknown item"
  by (simp add: dict_get_def author_or_Unknown_def)

lemma SwarmyTime_loop_unique_authors:
  "SwarmyTime_loop a data = Inr a' \<Longrightarrow>
   unique_authors a' = unique_authors a \<union> author_or_Unknown ` set data"
proof (induction data arbitrary: a)
  case Nil
  then show ?case by simp
next
  case (Cons item data)
  from Cons.prems obtain a1 where
    step: "SwarmyTime_body a item = Inr a1" and rest: "SwarmyTime_loop a1 data = Inr a'"
    by (auto simp: and_then_eq_Inr)
  from Cons.IH [OF rest] SwarmyTime_body_fields(1) [OF step] show ?case
    by (simp add: dict_get_author)
qed

lemma SwarmyTime_loop_total_downloads:
  "SwarmyTime_loop a data = Inr a' \<Longrightarrow>
   total_downloads a' = total_downloads a + sum_list (map downloads_or_0 data)"
proof (induction data arbitrary: a)
  case Nil
  then show ?case by simp
next
  case (Cons item data)
  from Cons.prems obtain a1 where
    step: "SwarmyTime_body a item = Inr a1" and rest: "SwarmyTime_loop a1 data = Inr a'"
    by (auto simp: and_then_eq_Inr)
  from py_add_downloads [OF SwarmyTime_body_fields(2) [OF step]]
  have "total_downloads a1 = total_downloads a + downloads_or_0 item" .
  with Cons.IH [OF rest] show ?case
    by simp
qed

text \<open>A record whose fields have the expected types cannot make the body raise.\<close>

lemma SwarmyTime_body_succeeds:
  assumes "downloads_ok item" and "id_ok item" and "item_types a = buckets m d s"
  shows "\<exists>a'. SwarmyTime_body a item = Inr a'"
proof -
  from assms(1) obtain td where
    td: "py_add (total_downloads a) (dict_get item ''downloads'' (PInt 0)) = Inr td"
    by (auto simp: downloads_ok_def py_add_def dict_get_def split: option.splits pyval.splits)
  let ?a2 = "a\<lparr>unique_authors :=
      insert (dict_get item ''author'' (PStr ''Unknown'')) (unique_authors a), total_downloads := td\<rparr>"
  have it: "item_types ?a2 = buckets m d s"
    using assms(3) by simp
  show ?thesis
  proof (cases "item ''modelId'' \<noteq> None")
    case True
    with td incr_item_type_buckets(1) [OF it] show ?thesis
      by (simp add: SwarmyTime_body_def Let_def)
  next
    case False
    with assms(2) obtain b where "py_in ''dataset'' (dict_get item ''id'' (PStr [])) = Inr b"
      by (auto simp: id_ok_def py_in_def dict_get_def split: option.splits pyval.splits)
    with False td incr_item_type_buckets(2,3) [OF it] show ?thesis
      by (simp add: SwarmyTime_body_def Let_def)
  qed
qed

lemma SwarmyTime_loop_succeeds:
  assumes "\<forall>item \<in> set data. downloads_ok item \<and> id_ok item" and "item_types a = buckets m d s"
  shows "\<exists>a'. SwarmyTime_loop a data = Inr a'"
  using assms
proof (induction data arbitrary: a m d s)
  case Nil
  then show ?case by simp
next
  case (Cons item data)
  from Cons.prems have ok: "downloads_ok item" "id_ok item" by simp_all
  from SwarmyTime_body_succeeds [OF ok Cons.prems(2)] obtain a1 where
    step: "SwarmyTime_body a item = Inr a1" ..
  from SwarmyTime_body_buckets [OF step Cons.prems(2)] obtain m1 d1 s1 where
    b1: "item_types a1 = buckets m1 d1 s1" by blast
  from Cons.prems(1) have "\<forall>item \<in> set data. downloads_ok item \<and> id_ok item" by simp
  from Cons.IH [OF this b1] step show ?case by simp
qed

lemma SwarmyTime_Inr:
  "SwarmyTime data = Inr r \<longleftrightarrow>
     (\<exists>a. SwarmyTime_loop
             \<lparr>total_items = int (length data), unique_authors = {}, total_downloads = 0,
              item_types = buckets 0 0 0\<rparr> data = Inr a \<and>
          r = \<lparr>total_items = total_items a, unique_authors = int (card (unique_authors a)),
               total_downloads = total_downloads a, item_types = item_types a\<rparr>)"
  by (auto simp: SwarmyTime_def and_then_eq_Inr buckets_def)

text \<open>Facts about \<^verbatim>\<open>search_hub\<close> and its parts.\<close>

lemma and_then_eq_Inl:
  "and_then m f = Inl e \<longleftrightarrow> m = Inl e \<or> (\<exists>x. m = Inr x \<and> f x = Inl e)"
  by (cases m) simp_all

lemma comprehension_Inr:
  "comprehension f xs = Inr ys \<longleftrightarrow> list_all2 (\<lambda>x y. f x = Inr y) xs ys"
proof (induction xs arbitrary: ys)
  case Nil
  then show ?case by auto
next
  case (Cons x xs)
  show ?case
    by (cases ys) (auto simp: and_then_eq_Inr Cons.IH)
qed

lemma comprehension_succeeds:
  "\<forall>x \<in> set xs. \<exists>y. f x = Inr y \<Longrightarrow> \<exists>ys. comprehension f xs = Inr ys"
proof (induction xs)
  case Nil
  then show ?case by simp
next
  case (Cons x xs)
  then obtain y ys where "f x = Inr y" "comprehension f xs = Inr ys"
    by auto
  then show ?case by simp
qed

lemma comprehension_fails:
  assumes "\<And>x e. f x = Inl e \<Longrightarrow> P e" and "\<exists>x \<in> set xs. \<exists>e. f x = Inl e"
  shows "\<exists>e. comprehension f xs = Inl e \<and> P e"
  using assms(2)
proof (induction xs)
  case Nil
  then show ?case by simp
next
  case (Cons x xs)
  show ?case
  proof (cases "f x")
    case (Inl e)
    with assms(1) show ?thesis by simp
  next
    case (Inr y)
    with Cons.prems have "\<exists>x \<in> set xs. \<exists>e. f x = Inl e" by auto
    from Cons.IH [OF this] obtain e where "comprehension f xs = Inl e" "P e" by blast
    with Inr show ?thesis by simp
  qed
qed

lemma getattr_Inr: "getattr obj a = Inr v \<longleftrightarrow> obj a = Some v"
  by (simp add: getattr_def split: option.splits)

lemma getitem_Inr: "getitem d k = Inr v \<longleftrightarrow> d k = Some v"
  by (simp add: getitem_def split: option.splits)

lemma getattr_Inl: "getattr obj a = Inl e \<longleftrightarrow> obj a = None \<and> e = AttributeError a"
  by (auto simp: getattr_def split: option.splits)

lemma model_row_Inr:
  "model_row x = Inr row \<longleftrightarrow>
     (\<exists>ident author downloads. x ''modelId'' = Some ident \<and> x ''author'' = Some author \<and>
        x ''downloads'' = Some downloads \<and>
        row = [''id'' \<mapsto> ident, ''author'' \<mapsto> author, ''downloads'' \<mapsto> downloads,
               ''link'' \<mapsto> PStr (''https://huggingface.co/'' @ py_str ident)])"
  by (auto simp: model_row_def and_then_eq_Inr getattr_Inr)

lemma dataset_row_Inr:
  "dataset_row x = Inr row \<longleftrightarrow>
     (\<exists>ident author downloads. x ''id'' = Some ident \<and> x ''author'' = Some author \<and>
        x ''downloads'' = Some downloads \<and>
        row = [''id'' \<mapsto> ident, ''author'' \<mapsto> author, ''downloads'' \<mapsto> downloads,
               ''link'' \<mapsto> PStr (''https://huggingface.co/datasets/'' @ py_str ident)])"
  by (auto simp: dataset_row_def and_then_eq_Inr getattr_Inr)

lemma space_row_Inr:
  "space_row x = Inr row \<longleftrightarrow>
     (\<exists>ident author. x ''id'' = Some ident \<and> x ''author'' = Some author \<and>
        row = [''id'' \<mapsto> ident, ''author'' \<mapsto> author,
               ''link'' \<mapsto> PStr (''https://huggingface.co/spaces/'' @ py_str ident)])"
  by (auto simp: space_row_def and_then_eq_Inr getattr_Inr)

lemma kind_of_Some:
  "kind_of st = Some k \<longleftrightarrow>
     (st = ''Models'' \<and> k = Model) \<or> (st = ''Datasets'' \<and> k = Dataset) \<or> (st = ''Spaces'' \<and> k = Space)"
  by (auto simp: kind_of_def)

lemma row_of_Inr:
  assumes "kind_of st = Some k" and "row_of st x = Inr row"
  shows "\<exists>ident author. x (id_attr st) = Some ident \<and> row ''id'' = Some ident \<and>
           row ''author'' = Some author \<and>
           row ''link'' = Some (PStr (primary_link ''huggingface.co'' k (py_str ident)))"
  using assms unfolding kind_of_Some
  by (elim disjE conjE)
     (auto simp: row_of_def id_attr_def model_row_Inr dataset_row_Inr space_row_Inr)

lemma row_of_succeeds:
  assumes "kind_of st = Some k" and "has_fields st x"
  shows "\<exists>row. row_of st x = Inr row"
  using assms unfolding kind_of_Some
  by (elim disjE conjE)
     (auto simp: row_of_def id_attr_def has_fields_def model_row_Inr dataset_row_Inr space_row_Inr)

lemma row_of_error:
  assumes "row_of st x = Inl e"
  shows "\<exists>a. e = AttributeError a"
  using assms
  by (auto simp: row_of_def model_row_def dataset_row_def space_row_def and_then_eq_Inl getattr_Inl
      split: if_splits)

lemma row_of_no_id:
  assumes "x (id_attr st) = None"
  shows "row_of st x = Inl (AttributeError (id_attr st))"
  using assms
  by (auto simp: row_of_def id_attr_def model_row_def dataset_row_def space_row_def getattr_def)

lemma search_hub_row_of:
  assumes "kind_of st = Some k"
  shows "search_hub api q st =
           and_then (and_then (catalog_items api q st) (comprehension (row_of st))) (number_rows st 1)"
  using assms unfolding kind_of_Some
  by (elim disjE conjE) (simp_all add: search_hub_def catalog_items_def row_of_def)

lemma search_hub_other:
  assumes "kind_of st = None"
  shows "search_hub api q st = Inr []"
  using assms by (simp add: search_hub_def kind_of_def split: if_splits)


lemma format_link_succeeds:
  assumes "item ''link'' \<noteq> None" and "item ''id'' \<noteq> None" and "item ''author'' \<noteq> None"
  shows "\<exists>html. format_link item number st = Inr html"
  using assms by (auto simp: format_link_def getitem_def Let_def)

lemma format_link_Inr:
  assumes "item ''link'' = Some link" and "item ''id'' = Some ident" and "item ''author'' = Some author"
  shows \<open>format_link item number st =
           Inr (''\<newline>    <div style="margin-bottom: 10px;">\<newline>''
                   @ ''        <strong>'' @ (str_of_int number @ ''. '' @ py_str ident) @ ''</strong><br>\<newline>''
                   @ ''        <a href="'' @ py_str link
                   @ ''" target="_blank" style="color: #4a90e2; text-decoration: none;">View ''
                   @ butlast st @ ''</a> | \<newline>''
                   @ ''        <a href="'' @ (py_str link @ ''/blob/main/README.md'')
                   @ ''" target="_blank" style="color: #4a90e2; text-decoration: none;">View README</a><br>\<newline>''
                   @ ''        <small>''
                   @ (''Author: '' @ py_str author @
                       (case item ''downloads'' of None \<Rightarrow> [] | Some d \<Rightarrow> '', Downloads: '' @ py_str d))
                   @ ''</small>\<newline>''
                   @ ''    </div>\<newline>''
                   @ ''    '')\<close>
  using assms by (simp add: format_link_def getitem_def Let_def split: option.splits)

lemma format_link_Inr_D:
  assumes "format_link item number st = Inr html"
  shows "\<exists>link ident author. item ''link'' = Some link \<and> item ''id'' = Some ident \<and>
           item ''author'' = Some author"
proof -
  from assms obtain link where "getitem item ''link'' = Inr link"
    by (cases "getitem item ''link''") (simp_all add: format_link_def)
  moreover from assms calculation obtain ident where "getitem item ''id'' = Inr ident"
    by (cases "getitem item ''id''") (simp_all add: format_link_def Let_def)
  moreover from assms calculation obtain author where "getitem item ''author'' = Inr author"
    by (cases "getitem item ''author''") (simp_all add: format_link_def Let_def)
  ultimately show ?thesis
    by (simp add: getitem_Inr)
qed

lemma format_link_readme:
  assumes "format_link item number st = Inr html" and "item ''link'' = Some link"
  shows \<open>sublist (''href="'' @ readme_link (py_str link) @ ''"'') html\<close>
proof -
  from format_link_Inr_D [OF assms(1)] assms(2) obtain ident author where
    "item ''id'' = Some ident" "item ''author'' = Some author"
    by auto
  from format_link_Inr [OF assms(2) this, of number st] assms(1)
  have html: \<open>html = ''\<newline>    <div style="margin-bottom: 10px;">\<newline>''
                   @ ''        <strong>'' @ (str_of_int number @ ''. '' @ py_str ident) @ ''</strong><br>\<newline>''
                   @ ''        <a href="'' @ py_str link
                   @ ''" target="_blank" style="color: #4a90e2; text-decoration: none;">View ''
                   @ butlast st @ ''</a> | \<newline>''
                   @ ''        <a href="'' @ (py_str link @ ''/blob/main/README.md'')
                   @ ''" target="_blank" style="color: #4a90e2; text-decoration: none;">View README</a><br>\<newline>''
                   @ ''        <small>''
                   @ (''Author: '' @ py_str author @
                       (case item ''downloads'' of None \<Rightarrow> [] | Some d \<Rightarrow> '', Downloads: '' @ py_str d))
                   @ ''</small>\<newline>''
                   @ ''    </div>\<newline>''
                   @ ''    ''\<close>
    by simp
  let ?ps = \<open>''\<newline>    <div style="margin-bottom: 10px;">\<newline>''
                   @ ''        <strong>'' @ (str_of_int number @ ''. '' @ py_str ident) @ ''</strong><br>\<newline>''
                   @ ''        <a href="'' @ py_str link
                   @ ''" target="_blank" style="color: #4a90e2; text-decoration: none;">View ''
                   @ butlast st @ ''</a> | \<newline>''
                   @ ''        <a ''\<close>
  let ?ss = \<open>'' target="_blank" style="color: #4a90e2; text-decoration: none;">View README</a><br>\<newline>''
                   @ ''        <small>''
                   @ (''Author: '' @ py_str author @
                       (case item ''downloads'' of None \<Rightarrow> [] | Some d \<Rightarrow> '', Downloads: '' @ py_str d))
                   @ ''</small>\<newline>''
                   @ ''    </div>\<newline>''
                   @ ''    ''\<close>
  have \<open>html = ?ps @ (''href="'' @ readme_link (py_str link) @ ''"'') @ ?ss\<close>
    unfolding html by (simp add: readme_link_def)
  then show ?thesis
    unfolding sublist_def by blast
qed

lemma number_rows_Inr:
  assumes "number_rows st k data = Inr df"
  shows "length df = length data \<and>
         (\<forall>i < length data. \<exists>html.
            format_link ((data ! i)(''number'' \<mapsto> PInt (k + int i))) (k + int i) st = Inr html \<and>
            df ! i = (data ! i)(''number'' \<mapsto> PInt (k + int i), ''formatted_link'' \<mapsto> PStr html))"
  using assms
proof (induction data arbitrary: k df)
  case Nil
  then show ?case by simp
next
  case (Cons item data)
  from Cons.prems obtain html rest where
    html: "format_link (item(''number'' \<mapsto> PInt k)) k st = Inr html"
    and rest: "number_rows st (k + 1) data = Inr rest"
    and df: "df = (item(''number'' \<mapsto> PInt k, ''formatted_link'' \<mapsto> PStr html)) # rest"
    by (auto simp: Let_def and_then_eq_Inr)
  from Cons.IH [OF rest] have len: "length rest = length data"
    and nth: "\<And>i. i < length data \<Longrightarrow> \<exists>html.
            format_link ((data ! i)(''number'' \<mapsto> PInt (k + 1 + int i))) (k + 1 + int i) st = Inr html \<and>
            rest ! i = (data ! i)(''number'' \<mapsto> PInt (k + 1 + int i), ''formatted_link'' \<mapsto> PStr html)"
    by blast+
  show ?case
  proof (intro conjI allI impI)
    show "length df = length (item # data)"
      using df len by simp
  next
    fix i assume i: "i < length (item # data)"
    show "\<exists>html. format_link (((item # data) ! i)(''number'' \<mapsto> PInt (k + int i))) (k + int i) st = Inr html \<and>
            df ! i = ((item # data) ! i)(''number'' \<mapsto> PInt (k + int i), ''formatted_link'' \<mapsto> PStr html)"
    proof (cases i)
      case 0
      with html df show ?thesis by simp
    next
      case (Suc j)
      with i have "j < length data" by simp
      from nth [OF this] Suc df show ?thesis
        by (simp add: add.assoc add.commute [of 1])
    qed
  qed
qed

lemma number_rows_succeeds:
  assumes "\<forall>item \<in> set data. item ''link'' \<noteq> None \<and> item ''id'' \<noteq> None \<and> item ''author'' \<noteq> None"
  shows "\<exists>df. number_rows st k data = Inr df"
  using assms
proof (induction data arbitrary: k)
  case Nil
  then show ?case by simp
next
  case (Cons item data)
  from Cons.prems
  have "(item(''number'' \<mapsto> PInt k)) ''link'' \<noteq> None" "(item(''number'' \<mapsto> PInt k)) ''id'' \<noteq> None"
    "(item(''number'' \<mapsto> PInt k)) ''author'' \<noteq> None"
    by simp_all
  from format_link_succeeds [OF this] obtain html where
    "format_link (item(''number'' \<mapsto> PInt k)) k st = Inr html" ..
  moreover from Cons.IH [of "k + 1"] Cons.prems obtain rest where
    "number_rows st (k + 1) data = Inr rest" by auto
  ultimately show ?case by (simp add: Let_def)
qed

text \<open>What a frame returned by \<^verbatim>\<open>search_hub\<close> looks like, row by row.\<close>

lemma search_hub_rows:
  assumes "kind_of st = Some k" and "search_hub api q st = Inr df"
  shows "\<exists>S. catalog_items api q st = Inr S \<and> length df = length S \<and>
           (\<forall>i < length S. \<exists>ident html.
              (S ! i) (id_attr st) = Some ident \<and>
              (df ! i) ''id'' = Some ident \<and>
              (df ! i) ''number'' = Some (PInt (int i + 1)) \<and>
              (df ! i) ''link'' = Some (PStr (primary_link ''huggingface.co'' k (py_str ident))) \<and>
              (df ! i) ''formatted_link'' = Some (PStr html) \<and>
              sublist (''href='' @ [CHR 0x22]
                       @ readme_link (primary_link ''huggingface.co'' k (py_str ident))
                       @ [CHR 0x22]) html)"
proof -
  from assms obtain S data where
    S: "catalog_items api q st = Inr S"
    and data: "comprehension (row_of st) S = Inr data"
    and df: "number_rows st 1 data = Inr df"
    unfolding search_hub_row_of [OF assms(1)] and_then_eq_Inr by blast
  from data have all2: "list_all2 (\<lambda>x row. row_of st x = Inr row) S data"
    by (simp add: comprehension_Inr)
  then have len: "length data = length S"
    by (simp add: list_all2_lengthD)
  from number_rows_Inr [OF df] have len': "length df = length data"
    and nth: "\<And>i. i < length data \<Longrightarrow> \<exists>html.
            format_link ((data ! i)(''number'' \<mapsto> PInt (1 + int i))) (1 + int i) st = Inr html \<and>
            df ! i = (data ! i)(''number'' \<mapsto> PInt (1 + int i), ''formatted_link'' \<mapsto> PStr html)"
    by blast+
  have "\<exists>ident html.
              (S ! i) (id_attr st) = Some ident \<and>
              (df ! i) ''id'' = Some ident \<and>
              (df ! i) ''number'' = Some (PInt (int i + 1)) \<and>
              (df ! i) ''link'' = Some (PStr (primary_link ''huggingface.co'' k (py_str ident))) \<and>
              (df ! i) ''formatted_link'' = Some (PStr html) \<and>
              sublist (''href='' @ [CHR 0x22]
                       @ readme_link (primary_link ''huggingface.co'' k (py_str ident))
                       @ [CHR 0x22]) html"
    if i: "i < length S" for i
  proof -
    from list_all2_nthD [OF all2 i] have "row_of st (S ! i) = Inr (data ! i)"
      by simp
    from row_of_Inr [OF assms(1) this] obtain ident author where
      id: "(S ! i) (id_attr st) = Some ident" "(data ! i) ''id'' = Some ident"
      and link: "(data ! i) ''link'' = Some (PStr (primary_link ''huggingface.co'' k (py_str ident)))"
      by blast
    from nth [of i] i len obtain html where
      html: "format_link ((data ! i)(''number'' \<mapsto> PInt (1 + int i))) (1 + int i) st = Inr html"
      and row: "df ! i = (data ! i)(''number'' \<mapsto> PInt (1 + int i), ''formatted_link'' \<mapsto> PStr html)"
      by auto
    from link have "((data ! i)(''number'' \<mapsto> PInt (1 + int i))) ''link'' =
        Some (PStr (primary_link ''huggingface.co'' k (py_str ident)))"
      by simp
    from format_link_readme [OF html this]
    have "sublist (''href='' @ [CHR 0x22]
                       @ readme_link (primary_link ''huggingface.co'' k (py_str ident))
                       @ [CHR 0x22]) html"
      by simp
    with id link row show ?thesis
      by (simp add: add.commute)
  qed
  with S len len' show ?thesis by simp
qed

lemma search_hub_succeeds:
  assumes "kind_of st = Some k" and "catalog_items api q st = Inr S"
    and "\<forall>x \<in> set S. has_fields st x"
  shows "\<exists>df. search_hub api q st = Inr df"
proof -
  from assms(3) row_of_succeeds [OF assms(1)] have "\<forall>x \<in> set S. \<exists>row. row_of st x = Inr row"
    by blast
  from comprehension_succeeds [OF this] obtain data where
    data: "comprehension (row_of st) S = Inr data" ..
  then have all2: "list_all2 (\<lambda>x row. row_of st x = Inr row) S data"
    by (simp add: comprehension_Inr)
  have "item ''link'' \<noteq> None \<and> item ''id'' \<noteq> None \<and> item ''author'' \<noteq> None"
    if "item \<in> set data" for item
  proof -
    from that all2 obtain x where "row_of st x = Inr item"
      by (auto simp: in_set_conv_nth list_all2_conv_all_nth)
    from row_of_Inr [OF assms(1) this] show ?thesis by auto
  qed
  then have "\<forall>item \<in> set data. item ''link'' \<noteq> None \<and> item ''id'' \<noteq> None \<and> item ''author'' \<noteq> None"
    by blast
  from number_rows_succeeds [OF this] obtain df where "number_rows st 1 data = Inr df" ..
  with assms(2) data show ?thesis
    by (simp add: search_hub_row_of [OF assms(1)])
qed

text \<open>Equations that evaluate the aggregator on a concrete input.\<close>

lemmas SwarmyTime_eval = SwarmyTime_def SwarmyTime_body_def incr_item_type_def dict_get_def
  py_add_def py_in_def Let_def sublist_code(3) prefix_code(3)


text \<open>Equations that evaluate \<^verbatim>\<open>search_hub\<close> on a concrete input.\<close>

lemmas search_hub_eval = search_hub_def fixed_api_def model_row_def dataset_row_def space_row_def
  getattr_def getitem_def format_link_def str_of_int_def str_of_nat.simps digit_char_def Let_def

text \<open>Facts about \<^verbatim>\<open>load_metadata\<close>.\<close>

lemma df_empty_Nil [simp]: "df_empty []"
  by (simp add: df_empty_def)

lemma df_empty_no_columns [simp]: "df_empty (Map.empty # rows) \<longleftrightarrow> df_empty rows"
  by (cases rows) (simp_all add: df_empty_def)

lemma df_empty_column [simp]: "\<not> df_empty (row(k \<mapsto> v) # rows)"
  by (simp add: df_empty_def)

lemma py_index_nonneg:
  "0 \<le> i \<Longrightarrow> i < int (length xs) \<Longrightarrow> py_index xs i = Inr (xs ! nat i)"
  by (simp add: py_index_def)

lemma load_metadata_reads:
  assumes "i \<in> set (fst (load_metadata load_card api evt df search_type))"
  shows "\<exists>rows. df = Some rows \<and> \<not> df_empty rows \<and> i < int (length rows)"
  using assms
  by (auto simp: load_metadata_def split: option.splits if_splits sum.splits)

lemma load_metadata_absent:
  "load_metadata load_card api evt None search_type = ([], Inr '''')"
  by (simp add: load_metadata_def)

lemma load_metadata_empty:
  "df_empty rows \<Longrightarrow> load_metadata load_card api evt (Some rows) search_type = ([], Inr '''')"
  by (simp add: load_metadata_def)

lemma load_metadata_beyond:
  assumes "index evt = i # rest" and "int (length rows) \<le> i"
  shows "load_metadata load_card api evt (Some rows) search_type = ([], Inr '''')"
  using assms by (simp add: load_metadata_def py_index_def)

text \<open>Facts about the bucket a record is counted in.\<close>

lemma SwarmyTime_body_bucket:
  assumes "SwarmyTime_body a item = Inr a'" and "item_types a = buckets m d s"
  shows "item_types a' =
           buckets (m + (if bucket_of item = ''Models'' then 1 else 0))
                   (d + (if bucket_of item = ''Datasets'' then 1 else 0))
                   (s + (if bucket_of item = ''Spaces'' then 1 else 0))"
    and "downloads_ok item" and "id_ok item"
proof -
  from assms(1) obtain td where
    td: "py_add (total_downloads a) (dict_get item ''downloads'' (PInt 0)) = Inr td"
    by (cases "py_add (total_downloads a) (dict_get item ''downloads'' (PInt 0))")
       (simp_all add: SwarmyTime_body_def Let_def)
  then show "downloads_ok item"
    by (auto simp: downloads_ok_def py_add_def dict_get_def split: option.splits pyval.splits)
  let ?a2 = "a\<lparr>unique_authors :=
      insert (dict_get item ''author'' (PStr ''Unknown'')) (unique_authors a), total_downloads := td\<rparr>"
  have it: "item_types ?a2 = buckets m d s"
    using assms(2) by simp
  have eq: "SwarmyTime_body a item =
      (if item ''modelId'' \<noteq> None then incr_item_type ''Models'' ?a2
       else and_then (py_in ''dataset'' (dict_get item ''id'' (PStr [])))
              (\<lambda>b. if b then incr_item_type ''Datasets'' ?a2 else incr_item_type ''Spaces'' ?a2))"
    unfolding SwarmyTime_body_def Let_def using td by simp
  have "item_types a' =
           buckets (m + (if bucket_of item = ''Models'' then 1 else 0))
                   (d + (if bucket_of item = ''Datasets'' then 1 else 0))
                   (s + (if bucket_of item = ''Spaces'' then 1 else 0)) \<and> id_ok item"
  proof (cases "item ''modelId'' \<noteq> None")
    case True
    with eq assms(1) incr_item_type_buckets(1) [OF it]
    have "a' = ?a2\<lparr>item_types := buckets (m + 1) d s\<rparr>" by simp
    with True show ?thesis
      by (simp add: bucket_of_def id_ok_def)
  next
    case False
    with eq have "SwarmyTime_body a item =
        and_then (py_in ''dataset'' (dict_get item ''id'' (PStr [])))
          (\<lambda>b. if b then incr_item_type ''Datasets'' ?a2 else incr_item_type ''Spaces'' ?a2)"
      by simp
    with assms(1) have "and_then (py_in ''dataset'' (dict_get item ''id'' (PStr [])))
          (\<lambda>b. if b then incr_item_type ''Datasets'' ?a2 else incr_item_type ''Spaces'' ?a2) = Inr a'"
      by metis
    then obtain b where b: "py_in ''dataset'' (dict_get item ''id'' (PStr [])) = Inr b"
      and a': "(if b then incr_item_type ''Datasets'' ?a2 else incr_item_type ''Spaces'' ?a2) = Inr a'"
      unfolding and_then_eq_Inr by blast
    from b have ok: "id_ok item"
      by (auto simp: id_ok_def py_in_def dict_get_def split: option.splits pyval.splits)
    from b False have bucket: "bucket_of item = (if b then ''Datasets'' else ''Spaces'')"
      by (auto simp: bucket_of_def py_in_def dict_get_def split: option.splits pyval.splits)
    show ?thesis
    proof (cases b)
      case True
      with a' incr_item_type_buckets(2) [OF it]
      have "a' = ?a2\<lparr>item_types := buckets m (d + 1) s\<rparr>" by simp
      with True bucket ok show ?thesis by simp
    next
      case False
      with a' incr_item_type_buckets(3) [OF it]
      have "a' = ?a2\<lparr>item_types := buckets m d (s + 1)\<rparr>" by simp
      with False bucket ok show ?thesis by simp
    qed
  qed
  then show "item_types a' =
           buckets (m + (if bucket_of item = ''Models'' then 1 else 0))
                   (d + (if bucket_of item = ''Datasets'' then 1 else 0))
                   (s + (if bucket_of item = ''Spaces'' then 1 else 0))"
    and "id_ok item"
    by simp_all
qed

lemma SwarmyTime_loop_bucket:
  assumes "SwarmyTime_loop a data = Inr a'" and "item_types a = buckets m d s"
  shows "item_types a' =
           buckets (m + int (length (filter (\<lambda>item. bucket_of item = ''Models'') data)))
                   (d + int (length (filter (\<lambda>item. bucket_of item = ''Datasets'') data)))
                   (s + int (length (filter (\<lambda>item. bucket_of item = ''Spaces'') data))) \<and>
         (\<forall>item \<in> set data. downloads_ok item \<and> id_ok item)"
  using assms
proof (induction data arbitrary: a m d s)
  case Nil
  then show ?case by simp
next
  case (Cons item data)
  from Cons.prems(1) obtain a1 where
    step: "SwarmyTime_body a item = Inr a1" and rest: "SwarmyTime_loop a1 data = Inr a'"
    by (auto simp: and_then_eq_Inr)
  note b1 = SwarmyTime_body_bucket [OF step Cons.prems(2)]
  from Cons.IH [OF rest b1(1)] b1(2,3) show ?case
    by (simp add: buckets_def)
qed


section \<open>Claims about the aggregator\<close>

text \<open>
  C9. On the empty input sequence \<^verbatim>\<open>SwarmyTime\<close> raises nothing and returns
  \<^verbatim>\<open>total_items = 0\<close>, \<^verbatim>\<open>unique_authors = 0\<close>, \<^verbatim>\<open>total_downloads = 0\<close> and
  \<^verbatim>\<open>item_types\<close> with the three kinds \<^verbatim>\<open>Models\<close>, \<^verbatim>\<open>Datasets\<close>, \<^verbatim>\<open>Spaces\<close> all
  mapped to 0.
\<close>

theorem SwarmyTime_empty:
  "SwarmyTime [] =
     Inr \<lparr>total_items = 0, unique_authors = 0, total_downloads = 0,
          item_types = [(''Models'', 0), (''Datasets'', 0), (''Spaces'', 0)]\<rparr>"
  by (simp add: SwarmyTime_def)

text \<open>
  C2. Whenever \<^verbatim>\<open>SwarmyTime\<close> returns a report for an input sequence, the values of
  its \<^verbatim>\<open>item_types\<close> sum to its \<^verbatim>\<open>total_items\<close>: every record adds one to
  exactly one of the three buckets.
\<close>

theorem SwarmyTime_item_types_sum:
  assumes "SwarmyTime data = Inr r"
  shows "sum_list (map snd (item_types r)) = total_items r"
proof -
  from assms obtain a where
    loop: "SwarmyTime_loop
             \<lparr>total_items = int (length data), unique_authors = {}, total_downloads = 0,
              item_types = [(''Models'', 0), (''Datasets'', 0), (''Spaces'', 0)]\<rparr> data = Inr a"
    and r: "r = \<lparr>total_items = total_items a, unique_authors = int (card (unique_authors a)),
                 total_downloads = total_downloads a, item_types = item_types a\<rparr>"
    by (auto simp: SwarmyTime_def and_then_eq_Inr)
  from SwarmyTime_loop_buckets [OF loop, of 0 0 0] obtain m d s where
    "item_types a = buckets m d s" "m + d + s = int (length data)"
    by (auto simp: buckets_def)
  moreover from SwarmyTime_loop_total_items [OF loop] have "total_items a = int (length data)"
    by simp
  ultimately show ?thesis
    using r by (simp add: buckets_def)
qed

theorem SwarmyTime_item_types_sum_witness:
  "SwarmyTime
     [[''id'' \<mapsto> PStr ''alice/m1'', ''author'' \<mapsto> PStr ''alice'', ''downloads'' \<mapsto> PInt 10],
      [''id'' \<mapsto> PStr ''bob/dataset-x'', ''author'' \<mapsto> PStr ''bob'']] =
     Inr \<lparr>total_items = 2, unique_authors = 2, total_downloads = 10,
          item_types = [(''Models'', 0), (''Datasets'', 1), (''Spaces'', 1)]\<rparr> \<and>
   sum_list (map snd [(''Models'', 0), (''Datasets'', 1::int), (''Spaces'', 1)]) = 2"
proof -
  have h: "SwarmyTime
     [[''id'' \<mapsto> PStr ''alice/m1'', ''author'' \<mapsto> PStr ''alice'', ''downloads'' \<mapsto> PInt 10],
      [''id'' \<mapsto> PStr ''bob/dataset-x'', ''author'' \<mapsto> PStr ''bob'']] =
     Inr \<lparr>total_items = 2, unique_authors = 2, total_downloads = 10,
          item_types = [(''Models'', 0), (''Datasets'', 1), (''Spaces'', 1)]\<rparr>"
    by (simp add: SwarmyTime_eval)
  from SwarmyTime_item_types_sum [OF h] h show ?thesis
    by simp
qed

text \<open>
  C5. Whenever \<^verbatim>\<open>SwarmyTime\<close> returns a report, its \<^verbatim>\<open>unique_authors\<close> is the
  number of distinct author values of the records, where a record without an author
  field counts with the sentinel \<^verbatim>\<open>"Unknown"\<close>. In particular two records that both
  lack the author field count as one author (see the witness).
\<close>

theorem SwarmyTime_unique_authors:
  assumes "SwarmyTime data = Inr r"
  shows "unique_authors r = int (card (author_or_Unknown ` set data))"
proof -
  from assms obtain a where
    loop: "SwarmyTime_loop
             \<lparr>total_items = int (length data), unique_authors = {}, total_downloads = 0,
              item_types = buckets 0 0 0\<rparr> data = Inr a"
    and r: "r = \<lparr>total_items = total_items a, unique_authors = int (card (unique_authors a)),
                 total_downloads = total_downloads a, item_types = item_types a\<rparr>"
    unfolding SwarmyTime_Inr by blast
  from SwarmyTime_loop_unique_authors [OF loop] have "unique_authors a = author_or_Unknown ` set data"
    by simp
  with r show ?thesis by simp
qed

theorem SwarmyTime_unique_authors_witness:
  "SwarmyTime [[''id'' \<mapsto> PStr ''a/x''], [''id'' \<mapsto> PStr ''b/y'']] =
     Inr \<lparr>total_items = 2, unique_authors = 1, total_downloads = 0,
          item_types = [(''Models'', 0), (''Datasets'', 0), (''Spaces'', 2)]\<rparr> \<and>
   int (card (author_or_Unknown ` set [[''id'' \<mapsto> PStr ''a/x''], [''id'' \<mapsto> PStr ''b/y'']])) = 1"
proof -
  have h: "SwarmyTime [[''id'' \<mapsto> PStr ''a/x''], [''id'' \<mapsto> PStr ''b/y'']] =
     Inr \<lparr>total_items = 2, unique_authors = 1, total_downloads = 0,
          item_types = [(''Models'', 0), (''Datasets'', 0), (''Spaces'', 2)]\<rparr>"
    by (simp add: SwarmyTime_eval)
  from SwarmyTime_unique_authors [OF h] h show ?thesis
    by simp
qed

text \<open>
  C6. For every sequence of records in which each downloads field is either absent or an
  integer (and each identifier the aggregator inspects is a string), \<^verbatim>\<open>SwarmyTime\<close>
  raises nothing and its \<^verbatim>\<open>total_downloads\<close> is the sum of the records' downloads,
  an absent field contributing 0.
\<close>

theorem SwarmyTime_total_downloads:
  assumes "\<forall>item \<in> set data. downloads_ok item \<and> id_ok item"
  shows "\<exists>r. SwarmyTime data = Inr r \<and> total_downloads r = sum_list (map downloads_or_0 data)"
proof -
  from SwarmyTime_loop_succeeds [OF assms, of _ 0 0 0] obtain a where
    loop: "SwarmyTime_loop
             \<lparr>total_items = int (length data), unique_authors = {}, total_downloads = 0,
              item_types = buckets 0 0 0\<rparr> data = Inr a"
    by force
  from SwarmyTime_loop_total_downloads [OF loop]
  have "total_downloads a = sum_list (map downloads_or_0 data)" by simp
  with loop show ?thesis
    unfolding SwarmyTime_Inr by auto
qed

theorem SwarmyTime_total_downloads_witness:
  "downloads_ok [''id'' \<mapsto> PStr ''alice/m1'', ''downloads'' \<mapsto> PInt 10] \<and>
   id_ok [''id'' \<mapsto> PStr ''alice/m1'', ''downloads'' \<mapsto> PInt 10] \<and>
   downloads_ok [''id'' \<mapsto> PStr ''alice/space'', ''author'' \<mapsto> PStr ''alice''] \<and>
   id_ok [''id'' \<mapsto> PStr ''alice/space'', ''author'' \<mapsto> PStr ''alice''] \<and>
   (\<exists>r. SwarmyTime [[''id'' \<mapsto> PStr ''alice/m1'', ''downloads'' \<mapsto> PInt 10],
                      [''id'' \<mapsto> PStr ''alice/space'', ''author'' \<mapsto> PStr ''alice'']] = Inr r \<and>
        total_downloads r = 10)"
proof -
  have h: "\<forall>item \<in> set [[''id'' \<mapsto> PStr ''alice/m1'', ''downloads'' \<mapsto> PInt 10],
                      [''id'' \<mapsto> PStr ''alice/space'', ''author'' \<mapsto> PStr ''alice'']].
      downloads_ok item \<and> id_ok item"
    by (simp add: downloads_ok_def id_ok_def)
  from SwarmyTime_total_downloads [OF h] h show ?thesis
    by (simp add: downloads_or_0_def)
qed

text \<open>
  C4 as stated fails: \<^verbatim>\<open>SwarmyTime\<close> has no error for an unknown kind. A record
  tagged with a kind that is none of the three is accepted and counted under
  \<^verbatim>\<open>Spaces\<close>, the \<^verbatim>\<open>else\<close> branch of line 102.
\<close>

theorem SwarmyTime_unknown_kind_counterexample:
  "SwarmyTime [[''id'' \<mapsto> PStr ''acme/widget'', ''kind'' \<mapsto> PStr ''Widget'']] =
     Inr \<lparr>total_items = 1, unique_authors = 1, total_downloads = 0,
          item_types = [(''Models'', 0), (''Datasets'', 0), (''Spaces'', 1)]\<rparr>"
  by (simp add: SwarmyTime_eval)

text \<open>
  C4, amended. For every record whose kind tag is none of the three known kinds, whose
  downloads count is absent or an integer and whose identifier, where the aggregator looks
  at it, is a string: the aggregator does not reject the record. Put anywhere into a
  sequence for which \<^verbatim>\<open>SwarmyTime\<close> returns a report, it leaves \<^verbatim>\<open>SwarmyTime\<close>
  returning a report, adds one to exactly one bucket and nothing to the other two. The
  bucket is \<^verbatim>\<open>Models\<close> if the record has a key \<^verbatim>\<open>"modelId"\<close>, else
  \<^verbatim>\<open>Datasets\<close> if its identifier contains \<^verbatim>\<open>"dataset"\<close>, else the default
  \<^verbatim>\<open>Spaces\<close>. The kind tag is never read.
\<close>

theorem SwarmyTime_unknown_kind_accepted:
  assumes "unknown_kind item" and "downloads_ok item" and "id_ok item"
    and "SwarmyTime (pre @ post) = Inr r"
  shows "\<exists>r' m d s.
           item_types r = [(''Models'', m), (''Datasets'', d), (''Spaces'', s)] \<and>
           SwarmyTime (pre @ item # post) = Inr r' \<and>
           item_types r' =
             [(''Models'', m + (if bucket_of item = ''Models'' then 1 else 0)),
              (''Datasets'', d + (if bucket_of item = ''Datasets'' then 1 else 0)),
              (''Spaces'', s + (if bucket_of item = ''Spaces'' then 1 else 0))]"
proof -
  from assms(4) obtain a where
    loop: "SwarmyTime_loop
             \<lparr>total_items = int (length (pre @ post)), unique_authors = {}, total_downloads = 0,
              item_types = buckets 0 0 0\<rparr> (pre @ post) = Inr a"
    and r: "item_types r = item_types a"
    unfolding SwarmyTime_Inr by auto
  from SwarmyTime_loop_bucket [OF loop]
  have it: "item_types a =
           buckets (int (length (filter (\<lambda>item. bucket_of item = ''Models'') (pre @ post))))
                   (int (length (filter (\<lambda>item. bucket_of item = ''Datasets'') (pre @ post))))
                   (int (length (filter (\<lambda>item. bucket_of item = ''Spaces'') (pre @ post))))"
    and ok: "\<forall>x \<in> set (pre @ post). downloads_ok x \<and> id_ok x"
    by simp_all
  from ok assms(2,3) have ok': "\<forall>x \<in> set (pre @ item # post). downloads_ok x \<and> id_ok x"
    by auto
  from SwarmyTime_loop_succeeds [OF ok', of _ 0 0 0] obtain a2 where
    loop': "SwarmyTime_loop
             \<lparr>total_items = int (length (pre @ item # post)), unique_authors = {}, total_downloads = 0,
              item_types = buckets 0 0 0\<rparr> (pre @ item # post) = Inr a2"
    by force
  from SwarmyTime_loop_bucket [OF loop']
  have it': "item_types a2 =
           buckets (int (length (filter (\<lambda>item. bucket_of item = ''Models'') (pre @ item # post))))
                   (int (length (filter (\<lambda>item. bucket_of item = ''Datasets'') (pre @ item # post))))
                   (int (length (filter (\<lambda>item. bucket_of item = ''Spaces'') (pre @ item # post))))"
    by simp
  let ?r' = "\<lparr>total_items = total_items a2, unique_authors = int (card (unique_authors a2)),
               total_downloads = total_downloads a2, item_types = item_types a2\<rparr>"
  from loop' have "SwarmyTime (pre @ item # post) = Inr ?r'"
    unfolding SwarmyTime_Inr by blast
  with r it it' show ?thesis
    by (simp add: buckets_def)
qed

theorem SwarmyTime_unknown_kind_accepted_witness:
  "unknown_kind [''id'' \<mapsto> PStr ''acme/widget'', ''kind'' \<mapsto> PStr ''Widget''] \<and>
   downloads_ok [''id'' \<mapsto> PStr ''acme/widget'', ''kind'' \<mapsto> PStr ''Widget''] \<and>
   id_ok [''id'' \<mapsto> PStr ''acme/widget'', ''kind'' \<mapsto> PStr ''Widget''] \<and>
   SwarmyTime ([[''modelId'' \<mapsto> PStr ''acme/m'', ''downloads'' \<mapsto> PInt 2]] @
               [[''id'' \<mapsto> PStr ''acme/dataset-d'']]) =
     Inr \<lparr>total_items = 2, unique_authors = 1, total_downloads = 2,
          item_types = [(''Models'', 1), (''Datasets'', 1), (''Spaces'', 0)]\<rparr> \<and>
   (\<exists>r'. SwarmyTime ([[''modelId'' \<mapsto> PStr ''acme/m'', ''downloads'' \<mapsto> PInt 2]] @
                      [''id'' \<mapsto> PStr ''acme/widget'', ''kind'' \<mapsto> PStr ''Widget''] #
                      [[''id'' \<mapsto> PStr ''acme/dataset-d'']]) = Inr r' \<and>
         item_types r' = [(''Models'', 1), (''Datasets'', 1), (''Spaces'', 1)])"
proof -
  let ?item = "[''id'' \<mapsto> PStr ''acme/widget'', ''kind'' \<mapsto> PStr ''Widget'']"
  have h: "unknown_kind ?item" "downloads_ok ?item" "id_ok ?item"
    by (simp_all add: unknown_kind_def downloads_ok_def id_ok_def)
  have b: "bucket_of ?item = ''Spaces''"
    by (simp add: bucket_of_def sublist_code(3) prefix_code(3))
  have run: "SwarmyTime ([[''modelId'' \<mapsto> PStr ''acme/m'', ''downloads'' \<mapsto> PInt 2]] @
               [[''id'' \<mapsto> PStr ''acme/dataset-d'']]) =
     Inr \<lparr>total_items = 2, unique_authors = 1, total_downloads = 2,
          item_types = [(''Models'', 1), (''Datasets'', 1), (''Spaces'', 0)]\<rparr>"
    by (simp add: SwarmyTime_eval)
  from SwarmyTime_unknown_kind_accepted [OF h run] b
  have "\<exists>r'. SwarmyTime ([[''modelId'' \<mapsto> PStr ''acme/m'', ''downloads'' \<mapsto> PInt 2]] @
                      ?item # [[''id'' \<mapsto> PStr ''acme/dataset-d'']]) = Inr r' \<and>
         item_types r' = [(''Models'', 1), (''Datasets'', 1), (''Spaces'', 1)]"
    by auto
  with h run show ?thesis by blast
qed

text \<open>
  C1 fails on the code. The records that reach \<^verbatim>\<open>SwarmyTime\<close> are the rows built by
  \<^verbatim>\<open>search_hub\<close>; none of them has a key \<^verbatim>\<open>"modelId"\<close> (the identifier is stored
  under \<^verbatim>\<open>"id"\<close>), and the kind searched for is not consulted. A search for models
  that finds the one model \<^verbatim>\<open>acme/widget\<close> is reported with \<^verbatim>\<open>Models\<close> at 0 and
  \<^verbatim>\<open>Spaces\<close> at 1. All three keys are present.
\<close>

theorem search_and_aggregate_models_miscounted:
  "\<exists>html.
     search_and_aggregate
       (fixed_api [[''modelId'' \<mapsto> PStr ''acme/widget'', ''author'' \<mapsto> PStr ''acme'',
                    ''downloads'' \<mapsto> PInt 3]] [] [])
       ''widget'' ''Models'' =
     Some (Inr (html,
          \<lparr>total_items = 1, unique_authors = 1, total_downloads = 3,
           item_types = [(''Models'', 0), (''Datasets'', 0), (''Spaces'', 1)]\<rparr>))"
  by (simp add: search_and_aggregate_def to_dict_records_def search_hub_columns_def float_column_def
      display_results_def search_hub_eval SwarmyTime_eval)


section \<open>Claims about the normaliser\<close>

text \<open>
  C8. For every sequence \<open>S\<close> of catalog items that carry the attributes
  \<^verbatim>\<open>search_hub\<close> reads, \<^verbatim>\<open>search_hub\<close> returns a frame with as many rows as
  \<open>S\<close> has items; the row at position \<open>i\<close> (counted from 0) carries the number
  \<open>i + 1\<close> and the identifier of the \<open>i\<close>-th item, so the rows are numbered
  \<open>1, \<dots>, length S\<close> in the order of the input.
\<close>

theorem search_hub_numbering:
  assumes "catalog_items api query search_type = Inr S"
    and "\<forall>x \<in> set S. has_fields search_type x"
  shows "\<exists>df. search_hub api query search_type = Inr df \<and> length df = length S \<and>
           (\<forall>i < length S. (df ! i) ''number'' = Some (PInt (int i + 1)) \<and>
                            (df ! i) ''id'' = (S ! i) (id_attr search_type))"
proof (cases "kind_of search_type")
  case None
  with assms(1) have "S = []"
    by (simp add: catalog_items_def kind_of_def split: if_splits)
  with search_hub_other [OF None] show ?thesis by simp
next
  case (Some k)
  from search_hub_succeeds [OF Some assms] obtain df where
    df: "search_hub api query search_type = Inr df" ..
  from search_hub_rows [OF Some df] assms(1) have "length df = length S"
    and "\<forall>i < length S. (df ! i) ''number'' = Some (PInt (int i + 1)) \<and>
                            (df ! i) ''id'' = (S ! i) (id_attr search_type)"
    by auto
  with df show ?thesis by blast
qed

theorem search_hub_numbering_witness:
  "has_fields ''Spaces'' [''id'' \<mapsto> PStr ''acme/demo'', ''author'' \<mapsto> PStr ''acme''] \<and>
   has_fields ''Spaces'' [''id'' \<mapsto> PStr ''zed/app'', ''author'' \<mapsto> PNone] \<and>
   (\<exists>df. search_hub
            (fixed_api [] [] [[''id'' \<mapsto> PStr ''acme/demo'', ''author'' \<mapsto> PStr ''acme''],
                              [''id'' \<mapsto> PStr ''zed/app'', ''author'' \<mapsto> PNone]])
            ''a'' ''Spaces'' = Inr df \<and>
        length df = 2 \<and>
        (df ! 0) ''number'' = Some (PInt 1) \<and> (df ! 0) ''id'' = Some (PStr ''acme/demo'') \<and>
        (df ! 1) ''number'' = Some (PInt 2) \<and> (df ! 1) ''id'' = Some (PStr ''zed/app''))"
proof -
  let ?S = "[[''id'' \<mapsto> PStr ''acme/demo'', ''author'' \<mapsto> PStr ''acme''],
             [''id'' \<mapsto> PStr ''zed/app'', ''author'' \<mapsto> PNone]]"
  have S: "catalog_items (fixed_api [] [] ?S) ''a'' ''Spaces'' = Inr ?S"
    by (simp add: catalog_items_def fixed_api_def)
  have h: "\<forall>x \<in> set ?S. has_fields ''Spaces'' x"
    by (simp add: has_fields_def id_attr_def)
  from search_hub_numbering [OF S h] obtain df where
    "search_hub (fixed_api [] [] ?S) ''a'' ''Spaces'' = Inr df" "length df = 2"
    "\<forall>i < 2. (df ! i) ''number'' = Some (PInt (int i + 1)) \<and> (df ! i) ''id'' = (?S ! i) ''id''"
    by (auto simp: id_attr_def)
  moreover from this(3) have "(df ! 0) ''number'' = Some (PInt 1) \<and> (df ! 0) ''id'' = Some (PStr ''acme/demo'')"
    by (auto dest: spec [of _ 0])
  moreover from calculation(3) have "(df ! 1) ''number'' = Some (PInt 2) \<and> (df ! 1) ''id'' = Some (PStr ''zed/app'')"
    by (auto dest: spec [of _ 1])
  ultimately show ?thesis
    using h by auto
qed

text \<open>
  C3 as stated fails: the program has no \<^verbatim>\<open>MalformedRecord\<close> error. An item without
  the identifier attribute makes the attribute access of line 11 raise
  \<^verbatim>\<open>AttributeError\<close>.
\<close>

theorem search_hub_missing_id_counterexample:
  "search_hub (fixed_api [[''author'' \<mapsto> PStr ''acme'', ''downloads'' \<mapsto> PInt 3]] [] [])
     ''widget'' ''Models'' = Inl (AttributeError ''modelId'')"
  by (simp add: search_hub_def fixed_api_def model_row_def getattr_def)

text \<open>
  C3, amended. For every batch of catalog items, if some item is missing the identifier
  attribute (\<^verbatim>\<open>modelId\<close> for models, \<^verbatim>\<open>id\<close> for datasets and spaces), then
  \<^verbatim>\<open>search_hub\<close> fails with an \<^verbatim>\<open>AttributeError\<close> and returns no frame at all:
  no partial result.
\<close>

theorem search_hub_missing_id:
  assumes "catalog_items api query search_type = Inr S"
    and "\<exists>x \<in> set S. x (id_attr search_type) = None"
  shows "\<exists>a. search_hub api query search_type = Inl (AttributeError a)"
proof (cases "kind_of search_type")
  case None
  with assms(1) have "S = []"
    by (simp add: catalog_items_def kind_of_def split: if_splits)
  with assms(2) show ?thesis by simp
next
  case (Some k)
  from assms(2) row_of_no_id have "\<exists>x \<in> set S. \<exists>e. row_of search_type x = Inl e"
    by blast
  have "\<exists>e. comprehension (row_of search_type) S = Inl e \<and> (\<exists>a. e = AttributeError a)"
  proof (rule comprehension_fails)
    show "\<exists>a. e = AttributeError a" if "row_of search_type x = Inl e" for x e
      using that by (rule row_of_error)
  qed fact
  then obtain a where "comprehension (row_of search_type) S = Inl (AttributeError a)"
    by blast
  with assms(1) show ?thesis
    by (simp add: search_hub_row_of [OF Some])
qed

theorem search_hub_missing_id_witness:
  "catalog_items
     (fixed_api [] [[''id'' \<mapsto> PStr ''acme/widget'', ''author'' \<mapsto> PStr ''acme'', ''downloads'' \<mapsto> PInt 3],
                    [''author'' \<mapsto> PStr ''zed'', ''downloads'' \<mapsto> PInt 1]] [])
     ''widget'' ''Datasets'' =
     Inr [[''id'' \<mapsto> PStr ''acme/widget'', ''author'' \<mapsto> PStr ''acme'', ''downloads'' \<mapsto> PInt 3],
          [''author'' \<mapsto> PStr ''zed'', ''downloads'' \<mapsto> PInt 1]] \<and>
   [''author'' \<mapsto> PStr ''zed'', ''downloads'' \<mapsto> PInt 1] (id_attr ''Datasets'') = None \<and>
   (\<exists>a. search_hub
           (fixed_api [] [[''id'' \<mapsto> PStr ''acme/widget'', ''author'' \<mapsto> PStr ''acme'', ''downloads'' \<mapsto> PInt 3],
                          [''author'' \<mapsto> PStr ''zed'', ''downloads'' \<mapsto> PInt 1]] [])
           ''widget'' ''Datasets'' = Inl (AttributeError a))"
proof -
  let ?S = "[[''id'' \<mapsto> PStr ''acme/widget'', ''author'' \<mapsto> PStr ''acme'', ''downloads'' \<mapsto> PInt 3],
             [''author'' \<mapsto> PStr ''zed'', ''downloads'' \<mapsto> PInt 1]]"
  have S: "catalog_items (fixed_api [] ?S []) ''widget'' ''Datasets'' = Inr ?S"
    by (simp add: catalog_items_def fixed_api_def)
  have h: "\<exists>x \<in> set ?S. x (id_attr ''Datasets'') = None"
    by (simp add: id_attr_def)
  from search_hub_missing_id [OF S h] S show ?thesis
    by (simp add: id_attr_def)
qed

text \<open>
  C7. For each of the three kinds and every batch of catalog items that carry the
  attributes \<^verbatim>\<open>search_hub\<close> reads, \<^verbatim>\<open>search_hub\<close> returns a frame in which the
  link of each row is the primary link of the specification for the hub domain
  \<^verbatim>\<open>huggingface.co\<close>, the kind searched for and the identifier of the item the row
  was made from, which makes it a function of kind and identifier alone; and the README
  link that \<^verbatim>\<open>format_link\<close> puts into the row's HTML is that link followed by
  \<^verbatim>\<open>/blob/main/README.md\<close>. The witness runs one search of each kind.
\<close>

theorem search_hub_links:
  assumes "kind_of search_type = Some k"
    and "catalog_items api query search_type = Inr S"
    and "\<forall>x \<in> set S. has_fields search_type x"
  shows \<open>\<exists>df. search_hub api query search_type = Inr df \<and> length df = length S \<and>
           (\<forall>i < length S. \<exists>ident html.
              (S ! i) (id_attr search_type) = Some ident \<and>
              (df ! i) ''link'' = Some (PStr (primary_link ''huggingface.co'' k (py_str ident))) \<and>
              (df ! i) ''formatted_link'' = Some (PStr html) \<and>
              sublist (''href="'' @ readme_link (primary_link ''huggingface.co'' k (py_str ident)) @ ''"'')
                html)\<close>
proof -
  from search_hub_succeeds [OF assms] obtain df where
    df: "search_hub api query search_type = Inr df" ..
  from search_hub_rows [OF assms(1) df] assms(2)
  have "length df = length S \<and>
           (\<forall>i < length S. \<exists>ident html.
              (S ! i) (id_attr search_type) = Some ident \<and>
              (df ! i) ''id'' = Some ident \<and>
              (df ! i) ''number'' = Some (PInt (int i + 1)) \<and>
              (df ! i) ''link'' = Some (PStr (primary_link ''huggingface.co'' k (py_str ident))) \<and>
              (df ! i) ''formatted_link'' = Some (PStr html) \<and>
              sublist (''href='' @ [CHR 0x22]
                       @ readme_link (primary_link ''huggingface.co'' k (py_str ident))
                       @ [CHR 0x22]) html)"
    by simp
  then have "length df = length S \<and>
           (\<forall>i < length S. \<exists>ident html.
              (S ! i) (id_attr search_type) = Some ident \<and>
              (df ! i) ''link'' = Some (PStr (primary_link ''huggingface.co'' k (py_str ident))) \<and>
              (df ! i) ''formatted_link'' = Some (PStr html) \<and>
              sublist (''href='' @ [CHR 0x22]
                       @ readme_link (primary_link ''huggingface.co'' k (py_str ident))
                       @ [CHR 0x22]) html)"
    by blast
  with df show ?thesis by simp
qed

theorem search_hub_links_witness:
  \<open>has_fields ''Models'' [''modelId'' \<mapsto> PStr ''acme/widget'', ''author'' \<mapsto> PStr ''acme'',
                          ''downloads'' \<mapsto> PInt 3] \<and>
   (\<exists>df html.
      search_hub
        (fixed_api [[''modelId'' \<mapsto> PStr ''acme/widget'', ''author'' \<mapsto> PStr ''acme'',
                     ''downloads'' \<mapsto> PInt 3]] [] [])
        ''widget'' ''Models'' = Inr df \<and>
      (df ! 0) ''link'' = Some (PStr ''https://huggingface.co/acme/widget'') \<and>
      (df ! 0) ''formatted_link'' = Some (PStr html) \<and>
      sublist ''href="https://huggingface.co/acme/widget/blob/main/README.md"'' html) \<and>
   has_fields ''Datasets'' [''id'' \<mapsto> PStr ''acme/widget'', ''author'' \<mapsto> PStr ''acme'',
                            ''downloads'' \<mapsto> PInt 3] \<and>
   (\<exists>df html.
      search_hub
        (fixed_api [] [[''id'' \<mapsto> PStr ''acme/widget'', ''author'' \<mapsto> PStr ''acme'',
                        ''downloads'' \<mapsto> PInt 3]] [])
        ''widget'' ''Datasets'' = Inr df \<and>
      (df ! 0) ''link'' = Some (PStr ''https://huggingface.co/datasets/acme/widget'') \<and>
      (df ! 0) ''formatted_link'' = Some (PStr html) \<and>
      sublist ''href="https://huggingface.co/datasets/acme/widget/blob/main/README.md"'' html) \<and>
   has_fields ''Spaces'' [''id'' \<mapsto> PStr ''acme/widget'', ''author'' \<mapsto> PStr ''acme''] \<and>
   (\<exists>df html.
      search_hub
        (fixed_api [] [] [[''id'' \<mapsto> PStr ''acme/widget'', ''author'' \<mapsto> PStr ''acme'']])
        ''widget'' ''Spaces'' = Inr df \<and>
      (df ! 0) ''link'' = Some (PStr ''https://huggingface.co/spaces/acme/widget'') \<and>
      (df ! 0) ''formatted_link'' = Some (PStr html) \<and>
      sublist ''href="https://huggingface.co/spaces/acme/widget/blob/main/README.md"'' html)\<close>
proof -
  let ?m = "[''modelId'' \<mapsto> PStr ''acme/widget'', ''author'' \<mapsto> PStr ''acme'', ''downloads'' \<mapsto> PInt 3]"
  let ?d = "[''id'' \<mapsto> PStr ''acme/widget'', ''author'' \<mapsto> PStr ''acme'', ''downloads'' \<mapsto> PInt 3]"
  let ?s = "[''id'' \<mapsto> PStr ''acme/widget'', ''author'' \<mapsto> PStr ''acme'']"
  have hm: "has_fields ''Models'' ?m" and hd: "has_fields ''Datasets'' ?d"
    and hs: "has_fields ''Spaces'' ?s"
    by (simp_all add: has_fields_def id_attr_def)
  have km: "kind_of ''Models'' = Some Model" and kd: "kind_of ''Datasets'' = Some Dataset"
    and ks: "kind_of ''Spaces'' = Some Space"
    by (simp_all add: kind_of_def)
  have Sm: "catalog_items (fixed_api [?m] [] []) ''widget'' ''Models'' = Inr [?m]"
    and Sd: "catalog_items (fixed_api [] [?d] []) ''widget'' ''Datasets'' = Inr [?d]"
    and Ss: "catalog_items (fixed_api [] [] [?s]) ''widget'' ''Spaces'' = Inr [?s]"
    by (simp_all add: catalog_items_def fixed_api_def)
  from hm have hm': "\<forall>x \<in> set [?m]. has_fields ''Models'' x" by simp
  from hd have hd': "\<forall>x \<in> set [?d]. has_fields ''Datasets'' x" by simp
  from hs have hs': "\<forall>x \<in> set [?s]. has_fields ''Spaces'' x" by simp
  from search_hub_links [OF km Sm hm']
  have m: \<open>\<exists>df html.
      search_hub (fixed_api [?m] [] []) ''widget'' ''Models'' = Inr df \<and>
      (df ! 0) ''link'' = Some (PStr ''https://huggingface.co/acme/widget'') \<and>
      (df ! 0) ''formatted_link'' = Some (PStr html) \<and>
      sublist ''href="https://huggingface.co/acme/widget/blob/main/README.md"'' html\<close>
    by (auto simp: id_attr_def readme_link_def)
  from search_hub_links [OF kd Sd hd']
  have d: \<open>\<exists>df html.
      search_hub (fixed_api [] [?d] []) ''widget'' ''Datasets'' = Inr df \<and>
      (df ! 0) ''link'' = Some (PStr ''https://huggingface.co/datasets/acme/widget'') \<and>
      (df ! 0) ''formatted_link'' = Some (PStr html) \<and>
      sublist ''href="https://huggingface.co/datasets/acme/widget/blob/main/README.md"'' html\<close>
    by (auto simp: id_attr_def readme_link_def)
  from search_hub_links [OF ks Ss hs']
  have s: \<open>\<exists>df html.
      search_hub (fixed_api [] [] [?s]) ''widget'' ''Spaces'' = Inr df \<and>
      (df ! 0) ''link'' = Some (PStr ''https://huggingface.co/spaces/acme/widget'') \<and>
      (df ! 0) ''formatted_link'' = Some (PStr html) \<and>
      sublist ''href="https://huggingface.co/spaces/acme/widget/blob/main/README.md"'' html\<close>
    by (auto simp: id_attr_def readme_link_def)
  from hm m hd d hs s show ?thesis
    by (intro conjI)
qed


section \<open>Claims about the row-selection callback\<close>

text \<open>
  C10 as stated fails: an index below minus the number of rows is out of range, yet it is
  smaller than the length, so the guard of line 58 lets it through and
  \<^verbatim>\<open>df.iloc\<close> raises \<^verbatim>\<open>IndexError\<close>.
\<close>

theorem load_metadata_negative_index_counterexample:
  "load_metadata (\<lambda>v. Inl ''no card'') (fixed_api [] [] []) \<lparr>index = [- 3, 0]\<rparr>
     (Some [[''id'' \<mapsto> PStr ''acme/demo''], [''id'' \<mapsto> PStr ''zed/app'']]) ''Spaces'' =
     ([- 3], Inl IndexError)"
  by (simp add: load_metadata_def py_index_def)

text \<open>
  C10, amended. For every result table and every selection event, \<^verbatim>\<open>load_metadata\<close>
  reads a row of the table only when the table is there, is not empty and the selected
  row index is strictly below its length (and a read at an index that is not negative is
  then within the table); when the table is absent or empty, or the event carries a row
  index at or beyond the table's length, it returns the empty string and reads nothing.
  What happens at a negative index is left open.
\<close>

theorem load_metadata_guard:
  "(\<forall>i \<in> set (fst (load_metadata load_card api evt df search_type)).
      \<exists>rows. df = Some rows \<and> \<not> df_empty rows \<and> i < int (length rows) \<and>
             (0 \<le> i \<longrightarrow> py_index rows i = Inr (rows ! nat i))) \<and>
   (df = None \<or> (\<exists>rows. df = Some rows \<and> df_empty rows) \<or>
      (\<exists>rows i rest. df = Some rows \<and> index evt = i # rest \<and> int (length rows) \<le> i)
    \<longrightarrow> load_metadata load_card api evt df search_type = ([], Inr ''''))"
proof (intro conjI ballI impI)
  fix i assume "i \<in> set (fst (load_metadata load_card api evt df search_type))"
  from load_metadata_reads [OF this] obtain rows where
    "df = Some rows" "\<not> df_empty rows" "i < int (length rows)" by blast
  then show "\<exists>rows. df = Some rows \<and> \<not> df_empty rows \<and> i < int (length rows) \<and>
             (0 \<le> i \<longrightarrow> py_index rows i = Inr (rows ! nat i))"
    by (simp add: py_index_nonneg)
next
  assume "df = None \<or> (\<exists>rows. df = Some rows \<and> df_empty rows) \<or>
      (\<exists>rows i rest. df = Some rows \<and> index evt = i # rest \<and> int (length rows) \<le> i)"
  then show "load_metadata load_card api evt df search_type = ([], Inr '''')"
    by (auto simp: load_metadata_absent load_metadata_empty load_metadata_beyond)
qed

theorem load_metadata_guard_witness:
  "load_metadata (\<lambda>v. Inl ''no card'') (fixed_api [] [] []) \<lparr>index = [1, 0]\<rparr>
     (Some [[''id'' \<mapsto> PStr ''acme/demo''], [''id'' \<mapsto> PStr ''zed/app'']]) ''Spaces'' =
     ([1], Inl (HubError ''not found'')) \<and>
   (1::int) < int (length [[''id'' \<mapsto> PStr ''acme/demo''], [''id'' \<mapsto> PStr ''zed/app'']]) \<and>
   py_index [[''id'' \<mapsto> PStr ''acme/demo''], [''id'' \<mapsto> PStr ''zed/app'']] 1 =
     Inr [''id'' \<mapsto> PStr ''zed/app''] \<and>
   load_metadata (\<lambda>v. Inl ''no card'') (fixed_api [] [] []) \<lparr>index = [2, 0]\<rparr>
     (Some [[''id'' \<mapsto> PStr ''acme/demo''], [''id'' \<mapsto> PStr ''zed/app'']]) ''Spaces'' =
     ([], Inr '''') \<and>
   df_empty [Map.empty] \<and>
   load_metadata (\<lambda>v. Inl ''no card'') (fixed_api [] [] []) \<lparr>index = [0, 0]\<rparr>
     (Some [Map.empty]) ''Spaces'' =
     ([], Inr '''')"
proof -
  let ?rows = "[[''id'' \<mapsto> PStr ''acme/demo''], [''id'' \<mapsto> PStr ''zed/app'']]"
  let ?lc = "\<lambda>v::pyval. Inl ''no card'' :: string + string"
  have run: "load_metadata ?lc (fixed_api [] [] []) \<lparr>index = [1, 0]\<rparr> (Some ?rows) ''Spaces'' =
     ([1], Inl (HubError ''not found''))"
    by (simp add: load_metadata_def py_index_def getitem_def fixed_api_def)
  from load_metadata_guard [of ?lc "fixed_api [] [] []" "\<lparr>index = [1, 0]\<rparr>" "Some ?rows" "''Spaces''"] run
  have "(1::int) < int (length ?rows) \<and> py_index ?rows 1 = Inr (?rows ! nat 1)"
    by simp
  moreover
  from load_metadata_guard [of ?lc "fixed_api [] [] []" "\<lparr>index = [2, 0]\<rparr>" "Some ?rows" "''Spaces''"]
  have "load_metadata ?lc (fixed_api [] [] []) \<lparr>index = [2, 0]\<rparr> (Some ?rows) ''Spaces'' = ([], Inr '''')"
    by simp
  moreover
  have e: "df_empty [Map.empty :: pydict]"
    by simp
  from load_metadata_guard [of ?lc "fixed_api [] [] []" "\<lparr>index = [0, 0]\<rparr>" "Some [Map.empty]" "''Spaces''"] e
  have "load_metadata ?lc (fixed_api [] [] []) \<lparr>index = [0, 0]\<rparr> (Some [Map.empty]) ''Spaces'' = ([], Inr '''')"
    by simp
  ultimately show ?thesis
    using run e by simp
qed

end
